theory Spec2Isabelle
  imports Main "HOL-Library.AList" "HOL-Library.Sublist"
begin

section \<open>Webhook delivery: \<open>PokeWebhookSender.sendToPoke\<close>\<close>

text \<open>
  The endpoint is the environment of \<open>sendToPoke\<close>: it answers the request of attempt
  \<open>k\<close> (counted from 0, as the loop variable \<open>attempt\<close>) with an HTTP status code, or the
  request (or reading its body) throws. What \<open>sendToPoke\<close> does is recorded as the list
  of its effects, in order: the requests it issues over the pool, the back-off sleeps,
  and how it ends.
\<close>

datatype response = Status nat | TransportError

datatype 'p effect =
    Request "'p list"
  | Sleep nat
  | Delivered
  | ClientErrorDrop nat
  | ExhaustedDrop

text \<open>
  The loop \<open>for (let attempt = 0; attempt < maxRetries; attempt++)\<close>. Inside the loop
  \<open>attempt < maxRetries\<close> holds, so \<open>maxRetries - 1\<close> is the same number on \<open>nat\<close> as in
  the source. Every status that is neither 2xx nor 4xx takes the retry branch.
\<close>

function sendLoop :: "(nat \<Rightarrow> response) \<Rightarrow> 'p list \<Rightarrow> nat \<Rightarrow> nat \<Rightarrow> 'p effect list" where
  "sendLoop endpoint updates maxRetries attempt =
     (if attempt < maxRetries then
        Request updates #
        (case endpoint attempt of
           Status code \<Rightarrow>
             if 200 \<le> code \<and> code < 300 then [Delivered]
             else if 400 \<le> code \<and> code < 500 then [ClientErrorDrop code]
             else (if attempt < maxRetries - 1 then [Sleep (2 ^ attempt * 100)] else [])
                  @ sendLoop endpoint updates maxRetries (attempt + 1)
         | TransportError \<Rightarrow>
             (if attempt < maxRetries - 1 then [Sleep (2 ^ attempt * 100)] else [])
             @ sendLoop endpoint updates maxRetries (attempt + 1))
      else [ExhaustedDrop])"
  by pat_completeness auto
termination
  by (relation "measure (\<lambda>(endpoint, updates, maxRetries, attempt). maxRetries - attempt)") auto

declare sendLoop.simps [simp del]

definition sendToPoke :: "(nat \<Rightarrow> response) \<Rightarrow> 'p list \<Rightarrow> nat \<Rightarrow> 'p effect list" where
  "sendToPoke endpoint updates maxRetries = sendLoop endpoint updates maxRetries 0"

text \<open>The default of the parameter: \<open>maxRetries = 3\<close>.\<close>

definition defaultMaxRetries :: nat where
  "defaultMaxRetries = 3"

text \<open>An endpoint that gives the same answer to every request.\<close>

definition always :: "response \<Rightarrow> nat \<Rightarrow> response" where
  "always r attempt = r"

text \<open>Counting in a run: the requests sent and the back-off delays slept.\<close>

fun isRequest :: "'p effect \<Rightarrow> bool" where
  "isRequest (Request b) = True"
| "isRequest e = False"

definition attempts :: "'p effect list \<Rightarrow> nat" where
  "attempts run = length (filter isRequest run)"

fun delays :: "'p effect list \<Rightarrow> nat list" where
  "delays [] = []"
| "delays (Sleep ms # run) = ms # delays run"
| "delays (e # run) = delays run"


section \<open>The session: \<open>claude/session.ts\<close>\<close>

subsection \<open>Data\<close>

datatype session_status = Active | Idle | Terminated

datatype permission_mode = BypassPermissions | Plan

datatype end_reason = Completed | Cancelled | Errored

text \<open>
  The input of a tool: \<open>'todos' in block.input\<close> is the only thing the session reads
  of it; everything else is passed on as it is.
\<close>

datatype tool_input = TodosInput "(string \<times> string) list" | OtherInput string

text \<open>The union \<open>SessionEvent\<close> of \<open>claude/types.ts\<close>.\<close>

datatype session_event =
    MessageChunk string
  | Thinking string
  | ToolCall string string tool_input
  | ToolResult string string string bool
  | PlanUpdate "(string \<times> string) list"
  | PlanModeChange bool
  | Question string string "(string \<times> string) list" bool
  | PermissionRequest string string tool_input "(string \<times> string) list"
  | SessionEnded end_reason
  | ErrorEvent string

text \<open>
  What the SDK's query stream delivers, as far as \<open>processMessages\<close> looks at it. A
  stream event carries a block when its type is \<open>content_block_start\<close> or
  \<open>content_block_delta\<close>; a block has a \<open>text\<close> field, a \<open>thinking\<close> field or neither.
  The content of an assistant message is an array of blocks or not an array at all.
\<close>

datatype stream_block = TextBlock string | ThinkingBlock string | OtherStreamBlock

datatype stream_event = ContentBlock stream_block | OtherStreamEvent

datatype content_block =
    ToolUse string string tool_input
  | ToolResultBlock string string bool
  | OtherBlock

datatype sdk_message =
    StreamEvent stream_event
  | Assistant "content_block list option"
  | Result bool
  | System
  | OtherMessage

text \<open>
  The fields of class \<open>Session\<close>. Time is in milliseconds. A timeout of the runtime is
  modelled by its deadline: \<open>textFlushTimeout\<close> holds the deadline of the armed flush
  timer (the source keeps the handle, and clears the handle whenever it drops it), and
  \<open>ttlTimeouts\<close> lists the armed time-to-live timers as (handle, call id, deadline);
  \<open>toolCallTimers\<close> maps a call id to the handle stored for it, as the source's map
  does. The two \<open>Map\<close>s are association lists (insertion order, one entry per key).
  \<open>loopRunning\<close> says whether \<open>processMessages\<close> is still iterating; \<open>inputEnded\<close> and
  \<open>inputQueue\<close> are the pushable input of \<open>claude/utils.ts\<close>.
\<close>

record session =
  ident :: string
  status :: session_status
  permissionMode :: permission_mode
  cwd :: string
  lastActivityAt :: nat
  inPlanMode :: bool
  cancelled :: bool
  loopRunning :: bool
  inputEnded :: bool
  inputQueue :: "string list"
  textBuffer :: string
  textFlushTimeout :: "nat option"
  toolCallNames :: "(string \<times> string) list"
  toolCallTimers :: "(string \<times> nat) list"
  ttlTimeouts :: "(nat \<times> string \<times> nat) list"
  nextHandle :: nat

definition textFlushIntervalMs :: nat where
  "textFlushIntervalMs = 50"

definition TOOL_CALL_TTL_MS :: nat where
  "TOOL_CALL_TTL_MS = 10 * 60 * 1000"

text \<open>
  The constructor, at time \<open>now\<close>: \<open>permissionMode\<close> defaults to \<open>bypassPermissions\<close>, the
  status is \<open>idle\<close>, and the message loop is started.
\<close>

definition newSession :: "nat \<Rightarrow> string \<Rightarrow> string \<Rightarrow> permission_mode option \<Rightarrow> session" where
  "newSession now i dir mode =
     \<lparr> ident = i, status = Idle,
       permissionMode = (case mode of None \<Rightarrow> BypassPermissions | Some m \<Rightarrow> m),
       cwd = dir, lastActivityAt = now, inPlanMode = False, cancelled = False,
       loopRunning = True, inputEnded = False, inputQueue = [],
       textBuffer = [], textFlushTimeout = None,
       toolCallNames = [], toolCallTimers = [], ttlTimeouts = [], nextHandle = 0 \<rparr>"

subsection \<open>Text aggregation\<close>

text \<open>
  Every method returns the events it hands to \<open>emitEvent\<close>, in order, with the new
  state. (\<open>emitEvent\<close> passes them to the \<open>onEvent\<close> callback; the counter of failed
  callbacks only feeds the log and is left out.)
\<close>

definition bufferTextChunk :: "nat \<Rightarrow> string \<Rightarrow> session \<Rightarrow> session" where
  "bufferTextChunk now text s =
     (let s1 = s\<lparr>textBuffer := textBuffer s @ text\<rparr>
      in if textFlushTimeout s1 = None
         then s1\<lparr>textFlushTimeout := Some (now + textFlushIntervalMs)\<rparr>
         else s1)"

text \<open>\<open>if (this.textBuffer)\<close>: the empty string is falsy, so nothing is emitted for it.\<close>

definition flushTextBuffer :: "session \<Rightarrow> session_event list \<times> session" where
  "flushTextBuffer s =
     (let s1 = s\<lparr>textFlushTimeout := None\<rparr>
      in if textBuffer s1 \<noteq> []
         then ([MessageChunk (textBuffer s1)], s1\<lparr>textBuffer := []\<rparr>)
         else ([], s1))"

text \<open>The callback of the flush timer.\<close>

definition textFlushFired :: "session \<Rightarrow> session_event list \<times> session" where
  "textFlushFired s = flushTextBuffer (s\<lparr>textFlushTimeout := None\<rparr>)"

subsection \<open>Tool correlation\<close>

definition trackToolCall :: "nat \<Rightarrow> string \<Rightarrow> string \<Rightarrow> session \<Rightarrow> session" where
  "trackToolCall now toolCallId toolName s =
     s\<lparr> toolCallNames := AList.update toolCallId toolName (toolCallNames s),
        ttlTimeouts := ttlTimeouts s @ [(nextHandle s, toolCallId, now + TOOL_CALL_TTL_MS)],
        toolCallTimers := AList.update toolCallId (nextHandle s) (toolCallTimers s),
        nextHandle := Suc (nextHandle s) \<rparr>"

text \<open>The callback of a time-to-live timer, for the call id it was armed for.\<close>

definition ttlFired :: "string \<Rightarrow> session \<Rightarrow> session" where
  "ttlFired toolCallId s =
     s\<lparr> toolCallNames := AList.delete toolCallId (toolCallNames s),
        toolCallTimers := AList.delete toolCallId (toolCallTimers s) \<rparr>"

definition clearTimeout :: "nat \<Rightarrow> (nat \<times> 'a) list \<Rightarrow> (nat \<times> 'a) list" where
  "clearTimeout handle timers = filter (\<lambda>timer. fst timer \<noteq> handle) timers"

definition getToolName :: "string \<Rightarrow> session \<Rightarrow> string \<times> session" where
  "getToolName toolCallId s =
     (let name = (case map_of (toolCallNames s) toolCallId of
                    None \<Rightarrow> ''unknown'' | Some n \<Rightarrow> n);
          s1 = s\<lparr>toolCallNames := AList.delete toolCallId (toolCallNames s)\<rparr>
      in case map_of (toolCallTimers s1) toolCallId of
           None \<Rightarrow> (name, s1)
         | Some timer \<Rightarrow>
             (name, s1\<lparr> ttlTimeouts := clearTimeout timer (ttlTimeouts s1),
                         toolCallTimers := AList.delete toolCallId (toolCallTimers s1) \<rparr>))"

subsection \<open>Timers coming due\<close>

text \<open>
  \<open>runTimers now\<close> runs the callbacks of all timers whose deadline has passed at time
  \<open>now\<close>. The time-to-live callbacks only delete map entries and the flush callback
  only touches the text buffer, so the order among them does not matter.
\<close>

definition dueTtl :: "nat \<Rightarrow> (nat \<times> string \<times> nat) \<Rightarrow> bool" where
  "dueTtl now timer = (snd (snd timer) \<le> now)"

definition runTimers :: "nat \<Rightarrow> session \<Rightarrow> session_event list \<times> session" where
  "runTimers now s =
     (let due = filter (dueTtl now) (ttlTimeouts s);
          s1 = fold (\<lambda>timer. ttlFired (fst (snd timer))) due
                 (s\<lparr>ttlTimeouts := filter (\<lambda>timer. \<not> dueTtl now timer) (ttlTimeouts s)\<rparr>)
      in case textFlushTimeout s1 of
           None \<Rightarrow> ([], s1)
         | Some deadline \<Rightarrow> if deadline \<le> now then textFlushFired s1 else ([], s1))"

subsection \<open>The message loop\<close>

definition processBlock :: "nat \<Rightarrow> content_block \<Rightarrow> session \<Rightarrow> session_event list \<times> session" where
  "processBlock now block s =
     (case block of
        ToolUse toolCallId toolName input \<Rightarrow>
          (let s1 = trackToolCall now toolCallId toolName s
           in case input of
                TodosInput todos \<Rightarrow>
                  if toolName = ''TodoWrite'' then ([PlanUpdate todos], s1)
                  else ([ToolCall toolCallId toolName input], s1)
              | OtherInput other \<Rightarrow> ([ToolCall toolCallId toolName input], s1))
      | ToolResultBlock toolUseId content isError \<Rightarrow>
          (let (toolName, s1) = getToolName toolUseId s
           in ([ToolResult toolUseId toolName content isError], s1))
      | OtherBlock \<Rightarrow> ([], s))"

fun processBlocks :: "nat \<Rightarrow> content_block list \<Rightarrow> session \<Rightarrow> session_event list \<times> session" where
  "processBlocks now [] s = ([], s)"
| "processBlocks now (block # blocks) s =
     (let (es1, s1) = processBlock now block s;
          (es2, s2) = processBlocks now blocks s1
      in (es1 @ es2, s2))"

text \<open>
  One turn of \<open>for await (const message of this.query)\<close>. A message that arrives after
  the loop has ended is not read; \<open>if (this.cancelled) break\<close> ends the loop.
\<close>

definition processMessage :: "nat \<Rightarrow> sdk_message \<Rightarrow> session \<Rightarrow> session_event list \<times> session" where
  "processMessage now message s =
     (if \<not> loopRunning s then ([], s)
      else if cancelled s then ([], s\<lparr>loopRunning := False\<rparr>)
      else
        (let s1 = s\<lparr>lastActivityAt := now\<rparr>
         in case message of
              StreamEvent event \<Rightarrow>
                (case event of
                   ContentBlock block \<Rightarrow>
                     (case block of
                        TextBlock text \<Rightarrow> ([], bufferTextChunk now text s1)
                      | ThinkingBlock thinking \<Rightarrow> ([Thinking thinking], s1)
                      | OtherStreamBlock \<Rightarrow> ([], s1))
                 | OtherStreamEvent \<Rightarrow> ([], s1))
            | Assistant content \<Rightarrow>
                (let (es1, s2) = flushTextBuffer s1
                 in case content of
                      None \<Rightarrow> (es1, s2)
                    | Some blocks \<Rightarrow>
                        (let (es2, s3) = processBlocks now blocks s2 in (es1 @ es2, s3)))
            | Result success \<Rightarrow>
                ([SessionEnded (if success then Completed else Errored)], s1\<lparr>status := Idle\<rparr>)
            | System \<Rightarrow> ([], s1)
            | OtherMessage \<Rightarrow> ([], s1)))"

text \<open>The stream ends: the loop returns.\<close>

definition streamEnded :: "session \<Rightarrow> session" where
  "streamEnded s = s\<lparr>loopRunning := False\<rparr>"

text \<open>
  The handler that \<open>startMessageLoop\<close> attaches: a fatal error of the loop is reported,
  the session is marked terminated and its input is closed.
\<close>

definition loopFailed :: "string \<Rightarrow> session \<Rightarrow> session_event list \<times> session" where
  "loopFailed message s =
     (if \<not> loopRunning s then ([], s)
      else ([ErrorEvent message],
            s\<lparr>loopRunning := False, status := Terminated, inputEnded := True\<rparr>))"

subsection \<open>Operations\<close>

text \<open>\<open>push\<close> of the pushable input: dropped once the input has ended.\<close>

definition pushInput :: "string \<Rightarrow> session \<Rightarrow> session" where
  "pushInput text s = (if inputEnded s then s else s\<lparr>inputQueue := inputQueue s @ [text]\<rparr>)"

definition sendPrompt :: "nat \<Rightarrow> string \<Rightarrow> session \<Rightarrow> session_event list \<times> session" where
  "sendPrompt now prompt s =
     ([], pushInput prompt (s\<lparr>status := Active, lastActivityAt := now, cancelled := False\<rparr>))"

definition createSlashCommandMessage :: "string \<Rightarrow> string option \<Rightarrow> string" where
  "createSlashCommandMessage command args =
     (case args of
        None \<Rightarrow> ''/'' @ command
      | Some a \<Rightarrow> if a = [] then ''/'' @ command else ''/'' @ command @ '' '' @ a)"

definition sendSlashCommand ::
  "nat \<Rightarrow> string \<Rightarrow> string option \<Rightarrow> session \<Rightarrow> session_event list \<times> session" where
  "sendSlashCommand now command args s =
     (let s1 = s\<lparr>status := Active, lastActivityAt := now, cancelled := False\<rparr>;
          (es, s2) = (if command = ''plan''
                      then ([PlanModeChange True], s1\<lparr>inPlanMode := True\<rparr>)
                      else ([], s1))
      in (es, pushInput (createSlashCommandMessage command args) s2))"

text \<open>
  \<open>cancel\<close> and \<open>setPermissionMode\<close> await a call of the SDK's query object, which may
  reject: \<open>sdk = Some reason\<close>. The operation then stops there and rejects with the same
  reason; the first component of the result is that reason, \<open>None\<close> when it completed.
\<close>

definition cancel :: "string option \<Rightarrow> session \<Rightarrow> string option \<times> session_event list \<times> session" where
  "cancel sdk s =
     (let s1 = s\<lparr>cancelled := True\<rparr>
      in case sdk of
           Some reason \<Rightarrow> (Some reason, [], s1)
         | None \<Rightarrow> (None, [SessionEnded Cancelled], s1\<lparr>status := Idle\<rparr>))"

definition setPermissionMode ::
  "permission_mode \<Rightarrow> string option \<Rightarrow> session \<Rightarrow> string option \<times> session_event list \<times> session" where
  "setPermissionMode mode sdk s =
     (let s1 = s\<lparr>permissionMode := mode\<rparr>;
          (es, s2) = (if inPlanMode s1 \<and> mode \<noteq> Plan
                      then ([PlanModeChange False], s1\<lparr>inPlanMode := False\<rparr>)
                      else ([], s1))
      in (sdk, es, s2))"

text \<open>
  \<open>terminate\<close> up to its \<open>await\<close>: the handles stored in \<open>toolCallTimers\<close> are cleared, both
  maps are emptied and the input is ended. The call then waits for the message loop.
\<close>

definition beginTerminate :: "session \<Rightarrow> session_event list \<times> session" where
  "beginTerminate s =
     (let s1 = s\<lparr>cancelled := True, status := Terminated\<rparr>;
          (es1, s2) = flushTextBuffer s1
      in (es1, s2\<lparr> ttlTimeouts := fold clearTimeout (map snd (toolCallTimers s2)) (ttlTimeouts s2),
                   toolCallNames := [], toolCallTimers := [], inputEnded := True \<rparr>))"

text \<open>
  How the message loop ends is up to the query stream: \<open>None\<close> when the loop returns (the
  stream is over, or the loop reads a message after \<open>cancelled\<close> was set and breaks),
  \<open>Some message\<close> when it throws; its handler then runs.
\<close>

definition loopEnds :: "string option \<Rightarrow> session \<Rightarrow> session_event list \<times> session" where
  "loopEnds loopError s =
     (case loopError of None \<Rightarrow> ([], streamEnded s) | Some message \<Rightarrow> loopFailed message s)"

text \<open>
  A call of \<open>terminate\<close> that completes: the loop ends as \<open>loopError\<close> says, and the wait is
  over. A call that never gets the loop's end does not complete and is not a value of
  this function.
\<close>

definition terminate :: "string option \<Rightarrow> session \<Rightarrow> session_event list \<times> session" where
  "terminate loopError s =
     (let (es1, s1) = beginTerminate s;
          (es2, s2) = loopEnds loopError s1
      in (es1 @ es2, s2))"

text \<open>
  The operations a client can issue after creation, as data, to speak about sequences
  of them. Each carries what the environment contributes (the time, the SDK's answer).
\<close>

datatype session_op =
    SendPrompt nat string
  | SendSlashCommand nat string "string option"
  | Cancel "string option"
  | SetPermissionMode permission_mode "string option"

fun applyOp :: "session_op \<Rightarrow> session \<Rightarrow> session" where
  "applyOp (SendPrompt now prompt) s = snd (sendPrompt now prompt s)"
| "applyOp (SendSlashCommand now command args) s = snd (sendSlashCommand now command args s)"
| "applyOp (Cancel sdk) s = snd (snd (cancel sdk s))"
| "applyOp (SetPermissionMode mode sdk) s = snd (snd (setPermissionMode mode sdk s))"

definition applyOps :: "session_op list \<Rightarrow> session \<Rightarrow> session" where
  "applyOps ops s = fold applyOp ops s"


section \<open>Paths and the file system\<close>

subsection \<open>\<open>node:path\<close> (POSIX): \<open>join\<close> and \<open>resolve\<close>\<close>

text \<open>
  The two library functions the manager calls, after Node's own implementation:
  \<open>normalizeString\<close> walks the segments of a path, drops empty segments and \<open>.\<close>, and
  lets \<open>..\<close> remove the segment before it (or keeps it, in a relative path that has
  nothing left to remove). \<open>join\<close> normalises the arguments put together with \<open>/\<close>;
  \<open>resolve\<close> goes through its arguments from the right until the path is absolute,
  falling back on the working directory of the process.
\<close>

fun splitOn :: "char \<Rightarrow> string \<Rightarrow> string list" where
  "splitOn c [] = [[]]"
| "splitOn c (x # xs) =
     (if x = c then [] # splitOn c xs
      else (case splitOn c xs of [] \<Rightarrow> [[x]] | w # ws \<Rightarrow> (x # w) # ws))"

fun joinWith :: "string \<Rightarrow> string list \<Rightarrow> string" where
  "joinWith sep [] = []"
| "joinWith sep [w] = w"
| "joinWith sep (w # ws) = w @ sep @ joinWith sep ws"

text \<open>The segments kept so far are held in reverse, the last one first.\<close>

fun normalizeSegments :: "bool \<Rightarrow> string list \<Rightarrow> string list \<Rightarrow> string list" where
  "normalizeSegments allowAboveRoot kept [] = rev kept"
| "normalizeSegments allowAboveRoot kept (seg # segs) =
     (if seg = [] \<or> seg = ''.'' then normalizeSegments allowAboveRoot kept segs
      else if seg = ''..'' then
        (case kept of
           [] \<Rightarrow> normalizeSegments allowAboveRoot (if allowAboveRoot then [''..''] else []) segs
         | lastSeg # below \<Rightarrow>
             if lastSeg = ''..''
             then normalizeSegments allowAboveRoot (if allowAboveRoot then ''..'' # kept else kept) segs
             else normalizeSegments allowAboveRoot below segs)
      else normalizeSegments allowAboveRoot (seg # kept) segs)"

definition normalizeString :: "string \<Rightarrow> bool \<Rightarrow> string" where
  "normalizeString path allowAboveRoot =
     joinWith ''/'' (normalizeSegments allowAboveRoot [] (splitOn CHR ''/'' path))"

definition isAbsolute :: "string \<Rightarrow> bool" where
  "isAbsolute path = (case path of [] \<Rightarrow> False | c # cs \<Rightarrow> c = CHR ''/'')"

definition normalize :: "string \<Rightarrow> string" where
  "normalize path =
     (if path = [] then ''.''
      else
        (let trailingSeparator = (last path = CHR ''/'');
             p = normalizeString path (\<not> isAbsolute path)
         in if p = [] then (if isAbsolute path then ''/''
                            else if trailingSeparator then ''./'' else ''.'')
            else (if isAbsolute path then ''/'' else []) @ p
                 @ (if trailingSeparator then ''/'' else [])))"

definition pathJoin :: "string \<Rightarrow> string \<Rightarrow> string" where
  "pathJoin a b =
     (if a = [] \<and> b = [] then ''.''
      else if a = [] then normalize b
      else if b = [] then normalize a
      else normalize (a @ ''/'' @ b))"

definition pathResolve :: "string \<Rightarrow> string \<Rightarrow> string \<Rightarrow> string" where
  "pathResolve processCwd a b =
     (let r1 = (if b = [] then [] else b @ ''/'');
          r2 = (if isAbsolute b \<or> a = [] then r1 else a @ ''/'' @ r1);
          r3 = (if isAbsolute b \<or> isAbsolute a then r2 else processCwd @ ''/'' @ r2)
      in ''/'' @ normalizeString r3 False)"

subsection \<open>The file system\<close>

text \<open>
  A place on the disk is named by its location, the names from the root directory down;
  the root itself is the empty location and is always a directory. The disk lists the
  locations in use with what is there. The lock file is kept as the record that
  \<open>JSON.stringify\<close> wrote and \<open>JSON.parse\<close> reads back; any other file is text (and does
  not parse as a lock record). There are no symbolic links.
\<close>

record lock_file_content =
  pid :: nat
  startedAt :: nat
  sessionIds :: "string list"

datatype file_content = Text string | LockJson lock_file_content

datatype node = Dir | File file_content

type_synonym location = "string list"

type_synonym filesystem = "(location \<times> node) list"

datatype io_error = ENOENT | EISDIR | ENOTDIR | EEXIST | ENOTEMPTY | EINVAL | EIO

definition nodeAt :: "filesystem \<Rightarrow> location \<Rightarrow> node option" where
  "nodeAt fs loc = (if loc = [] then Some Dir else map_of fs loc)"

text \<open>
  How the operating system follows a path, component by component: before a component
  is read, the place reached so far must be a directory; an empty component and \<open>.\<close>
  stay there, \<open>..\<close> goes to the parent (the root is its own parent), a name goes to the
  child of that name, whether it exists or not. A path that is not absolute starts in
  the working directory of the process; the empty path names nothing.
\<close>

fun walk :: "filesystem \<Rightarrow> location \<Rightarrow> string list \<Rightarrow> io_error + location" where
  "walk fs cur [] = Inr cur"
| "walk fs cur (c # cs) =
     (case nodeAt fs cur of
        None \<Rightarrow> Inl ENOENT
      | Some (File content) \<Rightarrow> Inl ENOTDIR
      | Some Dir \<Rightarrow>
          if c = [] \<or> c = ''.'' then walk fs cur cs
          else if c = ''..'' then walk fs (butlast cur) cs
          else walk fs (cur @ [c]) cs)"

definition components :: "string \<Rightarrow> string \<Rightarrow> string list" where
  "components processCwd path =
     splitOn CHR ''/'' (if isAbsolute path then path else processCwd @ ''/'' @ path)"

definition locate :: "string \<Rightarrow> filesystem \<Rightarrow> string \<Rightarrow> io_error + location" where
  "locate processCwd fs path =
     (if path = [] then Inl ENOENT else walk fs [] (components processCwd path))"

text \<open>
  An operation of \<open>node:fs/promises\<close> fails as the disk dictates (\<open>ENOENT\<close> and the like),
  and with \<open>EIO\<close> where the environment says so (\<open>fault\<close>: a full disk, a missing
  permission, a busy file).
\<close>

datatype fs_op =
    OpMkdir string
  | OpReadFile string
  | OpWriteFile string
  | OpRename string string
  | OpRm string
  | OpReaddir string
  | OpStat string

definition fsStat :: "(fs_op \<Rightarrow> bool) \<Rightarrow> string \<Rightarrow> filesystem \<Rightarrow> string \<Rightarrow> io_error + node" where
  "fsStat fault processCwd fs path =
     (if fault (OpStat path) then Inl EIO
      else case locate processCwd fs path of
             Inl e \<Rightarrow> Inl e
           | Inr loc \<Rightarrow> (case nodeAt fs loc of None \<Rightarrow> Inl ENOENT | Some n \<Rightarrow> Inr n))"

definition fsReadFile ::
  "(fs_op \<Rightarrow> bool) \<Rightarrow> string \<Rightarrow> filesystem \<Rightarrow> string \<Rightarrow> io_error + file_content" where
  "fsReadFile fault processCwd fs path =
     (if fault (OpReadFile path) then Inl EIO
      else case locate processCwd fs path of
             Inl e \<Rightarrow> Inl e
           | Inr loc \<Rightarrow>
               (case nodeAt fs loc of
                  None \<Rightarrow> Inl ENOENT
                | Some Dir \<Rightarrow> Inl EISDIR
                | Some (File content) \<Rightarrow> Inr content))"

text \<open>
  \<open>readdir(dir, { withFileTypes: true })\<close>: the names of the children with
  \<open>isDirectory()\<close>, in the order of the disk.
\<close>

definition isChild :: "location \<Rightarrow> location \<Rightarrow> bool" where
  "isChild dir loc = (loc \<noteq> [] \<and> butlast loc = dir)"

definition dirEntries :: "location \<Rightarrow> filesystem \<Rightarrow> (string \<times> bool) list" where
  "dirEntries dir fs =
     map (\<lambda>entry. (last (fst entry), snd entry = Dir)) (filter (\<lambda>entry. isChild dir (fst entry)) fs)"

definition fsReaddir ::
  "(fs_op \<Rightarrow> bool) \<Rightarrow> string \<Rightarrow> filesystem \<Rightarrow> string \<Rightarrow> io_error + (string \<times> bool) list" where
  "fsReaddir fault processCwd fs path =
     (if fault (OpReaddir path) then Inl EIO
      else case locate processCwd fs path of
             Inl e \<Rightarrow> Inl e
           | Inr loc \<Rightarrow>
               (case nodeAt fs loc of
                  None \<Rightarrow> Inl ENOENT
                | Some (File content) \<Rightarrow> Inl ENOTDIR
                | Some Dir \<Rightarrow> Inr (dirEntries loc fs)))"

text \<open>
  \<open>rm(path, { recursive: true, force: true })\<close> removes what is at the place and all
  below it; with \<open>force\<close>, a path that names nothing is no error.
\<close>

definition fsRm :: "(fs_op \<Rightarrow> bool) \<Rightarrow> string \<Rightarrow> filesystem \<Rightarrow> string \<Rightarrow> io_error + filesystem" where
  "fsRm fault processCwd fs path =
     (if fault (OpRm path) then Inl EIO
      else case locate processCwd fs path of
             Inl e \<Rightarrow> if e = ENOENT then Inr fs else Inl e
           | Inr loc \<Rightarrow> Inr (filter (\<lambda>entry. \<not> prefix loc (fst entry)) fs))"

text \<open>
  \<open>mkdir(path, { recursive: true })\<close> follows the path like \<open>walk\<close> and makes every
  directory that is missing on the way; a directory that is there is no error, a file
  in the way is.
\<close>

fun mkdirs :: "filesystem \<Rightarrow> location \<Rightarrow> string list \<Rightarrow> io_error + filesystem" where
  "mkdirs fs cur [] = Inr fs"
| "mkdirs fs cur (c # cs) =
     (case nodeAt fs cur of
        None \<Rightarrow> Inl ENOENT
      | Some (File content) \<Rightarrow> Inl ENOTDIR
      | Some Dir \<Rightarrow>
          if c = [] \<or> c = ''.'' then mkdirs fs cur cs
          else if c = ''..'' then mkdirs fs (butlast cur) cs
          else (case nodeAt fs (cur @ [c]) of
                  None \<Rightarrow> mkdirs (fs @ [(cur @ [c], Dir)]) (cur @ [c]) cs
                | Some Dir \<Rightarrow> mkdirs fs (cur @ [c]) cs
                | Some (File content) \<Rightarrow> Inl (if cs = [] then EEXIST else ENOTDIR)))"

definition fsMkdir :: "(fs_op \<Rightarrow> bool) \<Rightarrow> string \<Rightarrow> filesystem \<Rightarrow> string \<Rightarrow> io_error + filesystem" where
  "fsMkdir fault processCwd fs path =
     (if fault (OpMkdir path) then Inl EIO
      else if path = [] then Inl ENOENT
      else mkdirs fs [] (components processCwd path))"

text \<open>
  \<open>writeFile\<close> makes or replaces the file; the directory it goes into must be there.
\<close>

definition fsWriteFile ::
  "(fs_op \<Rightarrow> bool) \<Rightarrow> string \<Rightarrow> filesystem \<Rightarrow> string \<Rightarrow> file_content \<Rightarrow> io_error + filesystem" where
  "fsWriteFile fault processCwd fs path content =
     (if fault (OpWriteFile path) then Inl EIO
      else case locate processCwd fs path of
             Inl e \<Rightarrow> Inl e
           | Inr loc \<Rightarrow>
               (case nodeAt fs loc of
                  Some Dir \<Rightarrow> Inl EISDIR
                | Some (File old) \<Rightarrow> Inr (AList.update loc (File content) fs)
                | None \<Rightarrow>
                    (case nodeAt fs (butlast loc) of
                       None \<Rightarrow> Inl ENOENT
                     | Some (File other) \<Rightarrow> Inl ENOTDIR
                     | Some Dir \<Rightarrow> Inr (AList.update loc (File content) fs))))"

text \<open>
  \<open>rename\<close> moves a file to the new place, replacing a file that is there; a directory
  moves with all below it, onto nothing or onto an empty directory.
\<close>

definition moveTree :: "location \<Rightarrow> location \<Rightarrow> filesystem \<Rightarrow> filesystem" where
  "moveTree old new fs =
     map (\<lambda>entry. if prefix old (fst entry)
                  then (new @ drop (length old) (fst entry), snd entry) else entry)
       (filter (\<lambda>entry. \<not> prefix new (fst entry)) fs)"

definition fsRename ::
  "(fs_op \<Rightarrow> bool) \<Rightarrow> string \<Rightarrow> filesystem \<Rightarrow> string \<Rightarrow> string \<Rightarrow> io_error + filesystem" where
  "fsRename fault processCwd fs old new =
     (if fault (OpRename old new) then Inl EIO
      else case locate processCwd fs old of
             Inl e \<Rightarrow> Inl e
           | Inr oldLoc \<Rightarrow>
               (case locate processCwd fs new of
                  Inl e \<Rightarrow> Inl e
                | Inr newLoc \<Rightarrow>
                    (case nodeAt fs oldLoc of
                       None \<Rightarrow> Inl ENOENT
                     | Some (File content) \<Rightarrow>
                         if newLoc = oldLoc then Inr fs
                         else (case nodeAt fs newLoc of
                                 Some Dir \<Rightarrow> Inl EISDIR
                               | Some (File replaced) \<Rightarrow>
                                   Inr (AList.update newLoc (File content) (AList.delete oldLoc fs))
                               | None \<Rightarrow>
                                   (case nodeAt fs (butlast newLoc) of
                                      None \<Rightarrow> Inl ENOENT
                                    | Some (File other) \<Rightarrow> Inl ENOTDIR
                                    | Some Dir \<Rightarrow>
                                        Inr (AList.update newLoc (File content)
                                              (AList.delete oldLoc fs))))
                     | Some Dir \<Rightarrow>
                         if newLoc = oldLoc then Inr fs
                         else if oldLoc = [] \<or> prefix oldLoc newLoc then Inl EINVAL
                         else (case nodeAt fs newLoc of
                                 Some (File replaced) \<Rightarrow> Inl ENOTDIR
                               | Some Dir \<Rightarrow>
                                   if newLoc = [] \<or> dirEntries newLoc fs \<noteq> [] then Inl ENOTEMPTY
                                   else Inr (moveTree oldLoc newLoc fs)
                               | None \<Rightarrow>
                                   (case nodeAt fs (butlast newLoc) of
                                      None \<Rightarrow> Inl ENOENT
                                    | Some (File other) \<Rightarrow> Inl ENOTDIR
                                    | Some Dir \<Rightarrow> Inr (moveTree oldLoc newLoc fs))))))"



section \<open>The session manager: \<open>claude/session-manager.ts\<close>\<close>

subsection \<open>Data\<close>

text \<open>The errors of \<open>core/errors.ts\<close> that the manager throws, with their messages.\<close>

datatype app_error =
    SessionNotFoundError string
  | SessionLimitError nat
  | SessionStateError string
  | WorkspaceNotFoundError string
  | FileAccessError string
  | IoFailure io_error

fun errorCode :: "app_error \<Rightarrow> string" where
  "errorCode (SessionNotFoundError sessionId) = ''SESSION_NOT_FOUND''"
| "errorCode (SessionLimitError n) = ''SESSION_LIMIT_REACHED''"
| "errorCode (SessionStateError message) = ''SESSION_STATE_ERROR''"
| "errorCode (WorkspaceNotFoundError sessionId) = ''WORKSPACE_NOT_FOUND''"
| "errorCode (FileAccessError message) = ''FILE_ACCESS_ERROR''"
| "errorCode (IoFailure e) = ''INTERNAL_ERROR''"

record config =
  maxSessions :: nat
  sessionTimeoutMs :: nat
  bypassPermissions :: bool
  workspacesDir :: string
  onEventSet :: bool

text \<open>
  What the process and its surroundings contribute: which file operations fail
  (\<open>fault k operation\<close>: the operation fails if it is the one the process issues after
  \<open>k\<close> others), which process ids \<open>process.kill(pid, 0)\<close> finds running, the process's
  own id and working directory, and the identifiers \<open>randomUUID\<close> returns, one after the
  other.
\<close>

record runtime =
  fault :: "nat \<Rightarrow> fs_op \<Rightarrow> bool"
  isProcessRunning :: "nat \<Rightarrow> bool"
  processPid :: nat
  processCwd :: string
  randomUUID :: "nat \<Rightarrow> string"

record pending_question =
  questionSession :: string
  question :: string
  questionOptions :: "(string \<times> string) list"
  multiSelect :: bool
  questionTimeoutId :: nat

record pending_permission =
  permissionSession :: string
  permissionTool :: string
  permissionInput :: tool_input
  permissionOptions :: "(string \<times> string) list"
  permissionTimeoutId :: nat

text \<open>A pending entry is named by its map and its id.\<close>

datatype pending_ref = QuestionRef string | PermissionRef string

text \<open>
  A call of the \<open>resolve\<close> or the \<open>reject\<close> function of a pending entry, with the
  entry and the argument.
\<close>

datatype settlement = ResolveCalled pending_ref string | RejectCalled pending_ref string

text \<open>The warnings that the manager hands to \<open>logger.warn\<close>.\<close>

datatype warning =
    LockFileNotWritten
  | OrphanNotRemoved string
  | UnlistedNotRemoved string

text \<open>
  The fields of class \<open>SessionManager\<close>, and what its closures and its surroundings
  hold: \<open>timeouts\<close> are the armed five-minute timers as (handle, entry, deadline);
  \<open>completedFlags\<close> are the handles whose closure has set its variable \<open>completed\<close>;
  \<open>settlements\<close> records the calls of \<open>resolve\<close> and \<open>reject\<close>; \<open>forwarded\<close> are the
  events passed to \<open>config.onEvent\<close>; \<open>warnings\<close> are the warnings logged; \<open>disk\<close> is the
  file system and \<open>fsOps\<close> counts the file operations issued; \<open>uuidsDrawn\<close> counts the
  calls of \<open>randomUUID\<close>.
\<close>

record manager =
  sessions :: "(string \<times> session) list"
  pendingQuestions :: "(string \<times> pending_question) list"
  pendingPermissions :: "(string \<times> pending_permission) list"
  messageChunks :: "(string \<times> string list) list"
  timeouts :: "(nat \<times> pending_ref \<times> nat) list"
  nextTimeout :: nat
  completedFlags :: "nat list"
  settlements :: "settlement list"
  forwarded :: "(string \<times> session_event) list"
  warnings :: "warning list"
  disk :: filesystem
  fsOps :: nat
  uuidsDrawn :: nat

definition PENDING_TIMEOUT_MS :: nat where
  "PENDING_TIMEOUT_MS = 300000"

definition lockFilePath :: "config \<Rightarrow> string" where
  "lockFilePath cfg = pathJoin (workspacesDir cfg) ''.orchestrator.lock''"

definition newManager :: "filesystem \<Rightarrow> manager" where
  "newManager fs =
     \<lparr> sessions = [], pendingQuestions = [], pendingPermissions = [], messageChunks = [],
       timeouts = [], nextTimeout = 0, completedFlags = [], settlements = [],
       forwarded = [], warnings = [], disk = fs, fsOps = 0, uuidsDrawn = 0 \<rparr>"


subsection \<open>Events of the sessions and pending requests\<close>

definition forward :: "config \<Rightarrow> string \<Rightarrow> session_event \<Rightarrow> manager \<Rightarrow> manager" where
  "forward cfg sessionId event m =
     (if onEventSet cfg then m\<lparr>forwarded := forwarded m @ [(sessionId, event)]\<rparr> else m)"

definition cacheChunk :: "string \<Rightarrow> string \<Rightarrow> manager \<Rightarrow> manager" where
  "cacheChunk sessionId content m =
     (let chunks = (case map_of (messageChunks m) sessionId of None \<Rightarrow> [] | Some cs \<Rightarrow> cs)
      in m\<lparr>messageChunks := AList.update sessionId (chunks @ [content]) (messageChunks m)\<rparr>)"

definition handleSessionEvent ::
  "runtime \<Rightarrow> config \<Rightarrow> nat \<Rightarrow> string \<Rightarrow> session_event \<Rightarrow> manager \<Rightarrow> manager" where
  "handleSessionEvent rt cfg now sessionId event m =
     (case event of
        MessageChunk content \<Rightarrow>
          forward cfg sessionId event (cacheChunk sessionId content m)
      | Question unset text options multi \<Rightarrow>
          (let questionId = randomUUID rt (uuidsDrawn m);
               timeoutId = nextTimeout m;
               m1 = m\<lparr> uuidsDrawn := Suc (uuidsDrawn m),
                        nextTimeout := Suc timeoutId,
                        completedFlags := removeAll timeoutId (completedFlags m),
                        timeouts := timeouts m
                          @ [(timeoutId, QuestionRef questionId, now + PENDING_TIMEOUT_MS)],
                        pendingQuestions := AList.update questionId
                          \<lparr> questionSession = sessionId, question = text,
                            questionOptions = options, multiSelect = multi,
                            questionTimeoutId = timeoutId \<rparr>
                          (pendingQuestions m) \<rparr>
           in forward cfg sessionId (Question questionId text options multi) m1)
      | PermissionRequest unset toolName input options \<Rightarrow>
          (let permissionId = randomUUID rt (uuidsDrawn m);
               timeoutId = nextTimeout m;
               m1 = m\<lparr> uuidsDrawn := Suc (uuidsDrawn m),
                        nextTimeout := Suc timeoutId,
                        completedFlags := removeAll timeoutId (completedFlags m),
                        timeouts := timeouts m
                          @ [(timeoutId, PermissionRef permissionId, now + PENDING_TIMEOUT_MS)],
                        pendingPermissions := AList.update permissionId
                          \<lparr> permissionSession = sessionId, permissionTool = toolName,
                            permissionInput = input, permissionOptions = options,
                            permissionTimeoutId = timeoutId \<rparr>
                          (pendingPermissions m) \<rparr>
           in forward cfg sessionId (PermissionRequest permissionId toolName input options) m1)
      | _ \<Rightarrow> forward cfg sessionId event m)"

text \<open>
  The closures of a pending entry, which share the variable \<open>completed\<close> (\<open>false\<close> when
  the entry is made). \<open>resolve\<close> sets \<open>completed\<close> and clears the timer unless
  \<open>completed\<close> is set already; \<open>reject\<close> is \<open>() => {}\<close>. Each call is recorded.
\<close>

definition callResolve :: "nat \<Rightarrow> pending_ref \<Rightarrow> string \<Rightarrow> manager \<Rightarrow> manager" where
  "callResolve timeoutId entry answer m =
     (let m1 = m\<lparr>settlements := settlements m @ [ResolveCalled entry answer]\<rparr>
      in if timeoutId \<in> set (completedFlags m1) then m1
         else m1\<lparr> completedFlags := timeoutId # completedFlags m1,
                  timeouts := clearTimeout timeoutId (timeouts m1) \<rparr>)"

definition callReject :: "pending_ref \<Rightarrow> string \<Rightarrow> manager \<Rightarrow> manager" where
  "callReject entry reason m = m\<lparr>settlements := settlements m @ [RejectCalled entry reason]\<rparr>"

text \<open>The callback of a five-minute timer.\<close>

definition timeoutFired :: "nat \<Rightarrow> pending_ref \<Rightarrow> manager \<Rightarrow> manager" where
  "timeoutFired timeoutId entry m =
     (if timeoutId \<in> set (completedFlags m) then m
      else
        (let m1 = m\<lparr>completedFlags := timeoutId # completedFlags m\<rparr>
         in case entry of
              QuestionRef questionId \<Rightarrow>
                (case map_of (pendingQuestions m1) questionId of
                   None \<Rightarrow> m1
                 | Some pending \<Rightarrow>
                     (callReject (QuestionRef questionId) ''Question timeout'' m1)
                       \<lparr>pendingQuestions := AList.delete questionId (pendingQuestions m1)\<rparr>)
            | PermissionRef permissionId \<Rightarrow>
                (case map_of (pendingPermissions m1) permissionId of
                   None \<Rightarrow> m1
                 | Some pending \<Rightarrow>
                     (callReject (PermissionRef permissionId) ''Permission request timeout'' m1)
                       \<lparr>pendingPermissions := AList.delete permissionId (pendingPermissions m1)\<rparr>)))"

text \<open>
  The timers of the manager whose deadline has passed at time \<open>now\<close> fire, the earlier
  armed first; a timer that has fired is no longer armed.
\<close>

definition dueTimeout :: "nat \<Rightarrow> (nat \<times> pending_ref \<times> nat) \<Rightarrow> bool" where
  "dueTimeout now timer = (snd (snd timer) \<le> now)"

definition runTimeouts :: "nat \<Rightarrow> manager \<Rightarrow> manager" where
  "runTimeouts now m =
     fold (\<lambda>timer. timeoutFired (fst timer) (fst (snd timer)))
       (filter (dueTimeout now) (timeouts m))
       (m\<lparr>timeouts := filter (\<lambda>timer. \<not> dueTimeout now timer) (timeouts m)\<rparr>)"

definition answerQuestion :: "string \<Rightarrow> string \<Rightarrow> manager \<Rightarrow> (app_error + unit) \<times> manager" where
  "answerQuestion questionId answer m =
     (case map_of (pendingQuestions m) questionId of
        None \<Rightarrow> (Inl (SessionStateError (''Question not found: '' @ questionId)), m)
      | Some pending \<Rightarrow>
          (let m1 = m\<lparr>timeouts := clearTimeout (questionTimeoutId pending) (timeouts m)\<rparr>;
               m2 = callResolve (questionTimeoutId pending) (QuestionRef questionId) answer m1
           in (Inr (), m2\<lparr>pendingQuestions := AList.delete questionId (pendingQuestions m2)\<rparr>)))"

definition respondToPermission :: "string \<Rightarrow> string \<Rightarrow> manager \<Rightarrow> (app_error + unit) \<times> manager" where
  "respondToPermission permissionId decision m =
     (case map_of (pendingPermissions m) permissionId of
        None \<Rightarrow> (Inl (SessionStateError (''Permission request not found: '' @ permissionId)), m)
      | Some pending \<Rightarrow>
          (let m1 = m\<lparr>timeouts := clearTimeout (permissionTimeoutId pending) (timeouts m)\<rparr>;
               m2 = callResolve (permissionTimeoutId pending) (PermissionRef permissionId) decision m1
           in (Inr (), m2\<lparr>pendingPermissions := AList.delete permissionId (pendingPermissions m2)\<rparr>)))"


subsection \<open>File operations of the manager\<close>

text \<open>
  The manager awaits each file operation it issues. The operation takes effect, or fails,
  when the call that awaits it goes on; the count of operations issued goes up by one.
\<close>

definition issued :: "manager \<Rightarrow> manager" where
  "issued m = m\<lparr>fsOps := Suc (fsOps m)\<rparr>"

definition settle :: "io_error + filesystem \<Rightarrow> manager \<Rightarrow> (io_error + unit) \<times> manager" where
  "settle result m =
     (case result of
        Inl e \<Rightarrow> (Inl e, issued m)
      | Inr fs \<Rightarrow> (Inr (), issued (m\<lparr>disk := fs\<rparr>)))"

definition awaitMkdir :: "runtime \<Rightarrow> string \<Rightarrow> manager \<Rightarrow> (io_error + unit) \<times> manager" where
  "awaitMkdir rt path m = settle (fsMkdir (fault rt (fsOps m)) (processCwd rt) (disk m) path) m"

definition awaitRm :: "runtime \<Rightarrow> string \<Rightarrow> manager \<Rightarrow> (io_error + unit) \<times> manager" where
  "awaitRm rt path m = settle (fsRm (fault rt (fsOps m)) (processCwd rt) (disk m) path) m"

definition awaitWriteFile ::
  "runtime \<Rightarrow> string \<Rightarrow> file_content \<Rightarrow> manager \<Rightarrow> (io_error + unit) \<times> manager" where
  "awaitWriteFile rt path content m =
     settle (fsWriteFile (fault rt (fsOps m)) (processCwd rt) (disk m) path content) m"

definition awaitRename ::
  "runtime \<Rightarrow> string \<Rightarrow> string \<Rightarrow> manager \<Rightarrow> (io_error + unit) \<times> manager" where
  "awaitRename rt old new m =
     settle (fsRename (fault rt (fsOps m)) (processCwd rt) (disk m) old new) m"

definition awaitReadFile ::
  "runtime \<Rightarrow> string \<Rightarrow> manager \<Rightarrow> (io_error + file_content) \<times> manager" where
  "awaitReadFile rt path m =
     (fsReadFile (fault rt (fsOps m)) (processCwd rt) (disk m) path, issued m)"

definition awaitReaddir ::
  "runtime \<Rightarrow> string \<Rightarrow> manager \<Rightarrow> (io_error + (string \<times> bool) list) \<times> manager" where
  "awaitReaddir rt path m =
     (fsReaddir (fault rt (fsOps m)) (processCwd rt) (disk m) path, issued m)"

definition awaitStat :: "runtime \<Rightarrow> string \<Rightarrow> manager \<Rightarrow> (io_error + node) \<times> manager" where
  "awaitStat rt path m = (fsStat (fault rt (fsOps m)) (processCwd rt) (disk m) path, issued m)"

definition warn :: "warning \<Rightarrow> manager \<Rightarrow> manager" where
  "warn w m = m\<lparr>warnings := warnings m @ [w]\<rparr>"

subsection \<open>Lock file and start-up, run without interruption\<close>

text \<open>
  The asynchronous methods of the manager are given twice: here and in the next
  subsection as the call that runs from beginning to end with nothing else happening in
  between, and after that cut at their \<open>await\<close>s, so that calls can take turns.

  \<open>writeLockFile\<close>: the ids of the registry are read when the call begins; the content
  is written to a temporary file that is then renamed; a failure of either step is
  logged and swallowed.
\<close>

definition lockContent :: "runtime \<Rightarrow> nat \<Rightarrow> manager \<Rightarrow> lock_file_content" where
  "lockContent rt now m =
     \<lparr> pid = processPid rt, startedAt = now, sessionIds = map fst (sessions m) \<rparr>"

definition tmpPath :: "config \<Rightarrow> string" where
  "tmpPath cfg = lockFilePath cfg @ ''.tmp''"

definition writeLockFile :: "runtime \<Rightarrow> config \<Rightarrow> nat \<Rightarrow> manager \<Rightarrow> manager" where
  "writeLockFile rt cfg now m =
     (case awaitWriteFile rt (tmpPath cfg) (LockJson (lockContent rt now m)) m of
        (Inl e, m1) \<Rightarrow> warn LockFileNotWritten m1
      | (Inr written, m1) \<Rightarrow>
          (case awaitRename rt (tmpPath cfg) (lockFilePath cfg) m1 of
             (Inl e, m2) \<Rightarrow> warn LockFileNotWritten m2
           | (Inr renamed, m2) \<Rightarrow> m2))"

definition updateLockFile :: "runtime \<Rightarrow> config \<Rightarrow> nat \<Rightarrow> manager \<Rightarrow> manager" where
  "updateLockFile rt cfg now m = writeLockFile rt cfg now m"

text \<open>One turn of either clean-up loop: a removal that fails is logged and skipped.\<close>

definition removeWorkspace :: "runtime \<Rightarrow> warning \<Rightarrow> string \<Rightarrow> manager \<Rightarrow> manager" where
  "removeWorkspace rt w workspacePath m =
     (case awaitRm rt workspacePath m of
        (Inl e, m1) \<Rightarrow> warn w m1
      | (Inr removed, m1) \<Rightarrow> m1)"

definition removeListed :: "runtime \<Rightarrow> config \<Rightarrow> string \<Rightarrow> manager \<Rightarrow> manager" where
  "removeListed rt cfg sessionId m =
     removeWorkspace rt (OrphanNotRemoved sessionId) (pathJoin (workspacesDir cfg) sessionId) m"

definition startsWithDot :: "string \<Rightarrow> bool" where
  "startsWithDot name = prefix ''.'' name"

definition isUnlisted :: "string \<times> bool \<Rightarrow> bool" where
  "isUnlisted entry = (snd entry \<and> \<not> startsWithDot (fst entry))"

definition removeUnlisted :: "runtime \<Rightarrow> config \<Rightarrow> (string \<times> bool) \<Rightarrow> manager \<Rightarrow> manager" where
  "removeUnlisted rt cfg entry m =
     (if isUnlisted entry
      then removeWorkspace rt (UnlistedNotRemoved (pathJoin (workspacesDir cfg) (fst entry)))
             (pathJoin (workspacesDir cfg) (fst entry)) m
      else m)"

text \<open>
  \<open>cleanupOrphanedSessions\<close>. Everything is inside one \<open>try\<close>: a lock file that is not
  there, cannot be read or does not parse ends the clean-up, and so does a failing
  \<open>readdir\<close> (after the listed workspaces have been removed).
\<close>

definition cleanupOrphanedSessions :: "runtime \<Rightarrow> config \<Rightarrow> manager \<Rightarrow> manager" where
  "cleanupOrphanedSessions rt cfg m =
     (case awaitReadFile rt (lockFilePath cfg) m of
        (Inr (LockJson lockData), m1) \<Rightarrow>
          if isProcessRunning rt (pid lockData) then m1
          else
            (case awaitReaddir rt (workspacesDir cfg)
                    (fold (removeListed rt cfg) (sessionIds lockData) m1) of
               (Inl e, m2) \<Rightarrow> m2
             | (Inr entries, m2) \<Rightarrow> fold (removeUnlisted rt cfg) entries m2)
      | (unreadable, m1) \<Rightarrow> m1)"

text \<open>
  \<open>initialize\<close>: \<open>ensureWorkspacesDir\<close>, \<open>cleanupOrphanedSessions\<close>, \<open>writeLockFile\<close>. When
  the directory cannot be made, \<open>initialize\<close> rejects before the other two steps.
\<close>

definition initialize :: "runtime \<Rightarrow> config \<Rightarrow> nat \<Rightarrow> manager \<Rightarrow> (app_error + unit) \<times> manager" where
  "initialize rt cfg now m =
     (case awaitMkdir rt (workspacesDir cfg) m of
        (Inl e, m1) \<Rightarrow> (Inl (IoFailure e), m1)
      | (Inr made, m1) \<Rightarrow> (Inr (), writeLockFile rt cfg now (cleanupOrphanedSessions rt cfg m1)))"

subsection \<open>Creating and terminating sessions, run without interruption\<close>

text \<open>
  \<open>CreateSessionOptions\<close>: the \<open>cwd\<close> a caller gives is overridden by the workspace path.
  Sessions are modelled without MCP servers.
\<close>

record create_options =
  optionsCwd :: string
  optionsPermissionMode :: "permission_mode option"

definition register :: "config \<Rightarrow> nat \<Rightarrow> string \<Rightarrow> create_options \<Rightarrow> manager \<Rightarrow> manager" where
  "register cfg now sessionId options m =
     m\<lparr>sessions := AList.update sessionId
         (newSession now sessionId (pathJoin (workspacesDir cfg) sessionId)
            (optionsPermissionMode options))
         (sessions m)\<rparr>"

definition createSession ::
  "runtime \<Rightarrow> config \<Rightarrow> nat \<Rightarrow> create_options \<Rightarrow> manager \<Rightarrow> (app_error + string) \<times> manager" where
  "createSession rt cfg now options m =
     (if maxSessions cfg \<le> length (sessions m)
      then (Inl (SessionLimitError (maxSessions cfg)), m)
      else
        (let sessionId = randomUUID rt (uuidsDrawn m);
             m1 = m\<lparr>uuidsDrawn := Suc (uuidsDrawn m)\<rparr>
         in case awaitMkdir rt (pathJoin (workspacesDir cfg) sessionId) m1 of
              (Inl e, m2) \<Rightarrow> (Inl (IoFailure e), m2)
            | (Inr made, m2) \<Rightarrow>
                (Inr sessionId, updateLockFile rt cfg now (register cfg now sessionId options m2))))"

text \<open>
  The two clean-up loops of \<open>terminateSession\<close>, which go through the entries pending
  when the loop starts.
\<close>

definition dropQuestion :: "string \<Rightarrow> (string \<times> pending_question) \<Rightarrow> manager \<Rightarrow> manager" where
  "dropQuestion sessionId entry m =
     (if questionSession (snd entry) = sessionId
      then (callReject (QuestionRef (fst entry)) ''Session terminated''
              (m\<lparr>timeouts := clearTimeout (questionTimeoutId (snd entry)) (timeouts m)\<rparr>))
             \<lparr>pendingQuestions := AList.delete (fst entry) (pendingQuestions m)\<rparr>
      else m)"

definition dropPermission :: "string \<Rightarrow> (string \<times> pending_permission) \<Rightarrow> manager \<Rightarrow> manager" where
  "dropPermission sessionId entry m =
     (if permissionSession (snd entry) = sessionId
      then (callReject (PermissionRef (fst entry)) ''Session terminated''
              (m\<lparr>timeouts := clearTimeout (permissionTimeoutId (snd entry)) (timeouts m)\<rparr>))
             \<lparr>pendingPermissions := AList.delete (fst entry) (pendingPermissions m)\<rparr>
      else m)"

text \<open>
  What \<open>terminateSession\<close> does between the end of \<open>session.terminate()\<close> and the update of
  the lock file: the session leaves the registry, its pending entries are rejected and
  dropped, its cached chunks are dropped.
\<close>

definition unregister :: "string \<Rightarrow> manager \<Rightarrow> manager" where
  "unregister sessionId m =
     (let m1 = m\<lparr>sessions := AList.delete sessionId (sessions m)\<rparr>;
          m2 = fold (dropQuestion sessionId) (pendingQuestions m1) m1;
          m3 = fold (dropPermission sessionId) (pendingPermissions m2) m2
      in m3\<lparr>messageChunks := AList.delete sessionId (messageChunks m3)\<rparr>)"

text \<open>
  The events a session of the registry emits reach \<open>handleSessionEvent\<close> as they are
  emitted; \<open>inSession\<close> runs a method of the session and hands its events on.
\<close>

definition inSession ::
  "runtime \<Rightarrow> config \<Rightarrow> nat \<Rightarrow> string \<Rightarrow> (session \<Rightarrow> session_event list \<times> session) \<Rightarrow> manager
     \<Rightarrow> manager" where
  "inSession rt cfg now sessionId method m =
     (case map_of (sessions m) sessionId of
        None \<Rightarrow> m
      | Some s \<Rightarrow>
          fold (handleSessionEvent rt cfg now sessionId) (fst (method s))
            (m\<lparr>sessions := AList.update sessionId (snd (method s)) (sessions m)\<rparr>))"

text \<open>
  \<open>terminateSession\<close>, for a call that completes: the message loop of the session ends as
  \<open>loopError\<close> says (see \<open>terminate\<close>).
\<close>

definition terminateSession ::
  "runtime \<Rightarrow> config \<Rightarrow> nat \<Rightarrow> string option \<Rightarrow> string \<Rightarrow> manager \<Rightarrow> (app_error + unit) \<times> manager" where
  "terminateSession rt cfg now loopError sessionId m =
     (if map_of (sessions m) sessionId = None
      then (Inl (SessionNotFoundError sessionId), m)
      else (Inr (), updateLockFile rt cfg now
                      (unregister sessionId
                         (inSession rt cfg now sessionId (terminate loopError) m))))"

definition readMessageHistory :: "string \<Rightarrow> manager \<Rightarrow> (app_error + string list) \<times> manager" where
  "readMessageHistory sessionId m =
     (if map_of (sessions m) sessionId = None
      then (Inl (SessionNotFoundError sessionId), m)
      else
        (let chunks = (case map_of (messageChunks m) sessionId of None \<Rightarrow> [] | Some cs \<Rightarrow> cs)
         in (Inr chunks, m\<lparr>messageChunks := AList.delete sessionId (messageChunks m)\<rparr>)))"

subsection \<open>Calls that take turns\<close>

text \<open>
  An asynchronous call runs until it reaches an \<open>await\<close>; there it is suspended, and other
  calls, timers and events may run before it goes on. A suspended call is described by
  the \<open>await\<close> it stands at and the local variables it still needs; \<open>Settled\<close> is a call
  that has returned or thrown.
\<close>

datatype outcome = Returned | ReturnedId string | Threw app_error

datatype caller = ByInitialize | ByCreateSession string | ByTerminateSession

datatype call =
    EnsuringWorkspacesDir
  | ReadingLockFile
  | RemovingListed string "string list"
  | ReadingWorkspacesDir
  | RemovingUnlisted "string \<times> bool" "(string \<times> bool) list"
  | WritingLockFile lock_file_content caller
  | RenamingLockFile caller
  | CreatingWorkspace string create_options
  | AwaitingMessageLoop string
  | Settled outcome

fun outcomeFor :: "caller \<Rightarrow> outcome" where
  "outcomeFor ByInitialize = Returned"
| "outcomeFor (ByCreateSession sessionId) = ReturnedId sessionId"
| "outcomeFor ByTerminateSession = Returned"

text \<open>The calls as they begin: up to their first \<open>await\<close>.\<close>

definition beginWriteLockFile :: "runtime \<Rightarrow> nat \<Rightarrow> caller \<Rightarrow> manager \<Rightarrow> call \<times> manager" where
  "beginWriteLockFile rt now caller m = (WritingLockFile (lockContent rt now m) caller, m)"

definition beginInitialize :: "manager \<Rightarrow> call \<times> manager" where
  "beginInitialize m = (EnsuringWorkspacesDir, m)"

definition beginCreateSession :: "runtime \<Rightarrow> config \<Rightarrow> create_options \<Rightarrow> manager \<Rightarrow> call \<times> manager" where
  "beginCreateSession rt cfg options m =
     (if maxSessions cfg \<le> length (sessions m)
      then (Settled (Threw (SessionLimitError (maxSessions cfg))), m)
      else (CreatingWorkspace (randomUUID rt (uuidsDrawn m)) options,
            m\<lparr>uuidsDrawn := Suc (uuidsDrawn m)\<rparr>))"

definition beginTerminateSession ::
  "runtime \<Rightarrow> config \<Rightarrow> nat \<Rightarrow> string \<Rightarrow> manager \<Rightarrow> call \<times> manager" where
  "beginTerminateSession rt cfg now sessionId m =
     (if map_of (sessions m) sessionId = None
      then (Settled (Threw (SessionNotFoundError sessionId)), m)
      else (AwaitingMessageLoop sessionId, inSession rt cfg now sessionId beginTerminate m))"

text \<open>
  The loops of the clean-up at their next \<open>await\<close>: the next listed workspace, or the
  \<open>readdir\<close>; the next entry that is a directory with no dot in front, or the update of
  the lock file.
\<close>

fun nextListed :: "string list \<Rightarrow> call" where
  "nextListed [] = ReadingWorkspacesDir"
| "nextListed (sessionId # rest) = RemovingListed sessionId rest"

fun nextUnlisted :: "runtime \<Rightarrow> nat \<Rightarrow> manager \<Rightarrow> (string \<times> bool) list \<Rightarrow> call" where
  "nextUnlisted rt now m [] = fst (beginWriteLockFile rt now ByInitialize m)"
| "nextUnlisted rt now m (entry # rest) =
     (if isUnlisted entry then RemovingUnlisted entry rest else nextUnlisted rt now m rest)"

text \<open>
  A call of \<open>terminateSession\<close> waits in \<open>session.terminate()\<close> for the message loop of its
  session. A session that has left the registry meanwhile was taken out by another call
  that had waited for the same loop.
\<close>

definition waiting :: "call \<Rightarrow> manager \<Rightarrow> bool" where
  "waiting c m =
     (case c of
        AwaitingMessageLoop sessionId \<Rightarrow>
          (case map_of (sessions m) sessionId of None \<Rightarrow> False | Some s \<Rightarrow> loopRunning s)
      | _ \<Rightarrow> False)"

text \<open>
  \<open>resume\<close>: the awaited operation takes effect and the call runs on to its next \<open>await\<close>,
  or to its end.
\<close>

fun resume :: "runtime \<Rightarrow> config \<Rightarrow> nat \<Rightarrow> call \<Rightarrow> manager \<Rightarrow> call \<times> manager" where
  "resume rt cfg now EnsuringWorkspacesDir m =
     (case awaitMkdir rt (workspacesDir cfg) m of
        (Inl e, m1) \<Rightarrow> (Settled (Threw (IoFailure e)), m1)
      | (Inr made, m1) \<Rightarrow> (ReadingLockFile, m1))"
| "resume rt cfg now ReadingLockFile m =
     (case awaitReadFile rt (lockFilePath cfg) m of
        (Inr (LockJson lockData), m1) \<Rightarrow>
          if isProcessRunning rt (pid lockData) then beginWriteLockFile rt now ByInitialize m1
          else (nextListed (sessionIds lockData), m1)
      | (unreadable, m1) \<Rightarrow> beginWriteLockFile rt now ByInitialize m1)"
| "resume rt cfg now (RemovingListed sessionId rest) m =
     (nextListed rest, removeListed rt cfg sessionId m)"
| "resume rt cfg now ReadingWorkspacesDir m =
     (case awaitReaddir rt (workspacesDir cfg) m of
        (Inl e, m1) \<Rightarrow> beginWriteLockFile rt now ByInitialize m1
      | (Inr entries, m1) \<Rightarrow> (nextUnlisted rt now m1 entries, m1))"
| "resume rt cfg now (RemovingUnlisted entry rest) m =
     (nextUnlisted rt now (removeUnlisted rt cfg entry m) rest, removeUnlisted rt cfg entry m)"
| "resume rt cfg now (WritingLockFile content caller) m =
     (case awaitWriteFile rt (tmpPath cfg) (LockJson content) m of
        (Inl e, m1) \<Rightarrow> (Settled (outcomeFor caller), warn LockFileNotWritten m1)
      | (Inr written, m1) \<Rightarrow> (RenamingLockFile caller, m1))"
| "resume rt cfg now (RenamingLockFile caller) m =
     (case awaitRename rt (tmpPath cfg) (lockFilePath cfg) m of
        (Inl e, m1) \<Rightarrow> (Settled (outcomeFor caller), warn LockFileNotWritten m1)
      | (Inr renamed, m1) \<Rightarrow> (Settled (outcomeFor caller), m1))"
| "resume rt cfg now (CreatingWorkspace sessionId options) m =
     (case awaitMkdir rt (pathJoin (workspacesDir cfg) sessionId) m of
        (Inl e, m1) \<Rightarrow> (Settled (Threw (IoFailure e)), m1)
      | (Inr made, m1) \<Rightarrow>
          beginWriteLockFile rt now (ByCreateSession sessionId)
            (register cfg now sessionId options m1))"
| "resume rt cfg now (AwaitingMessageLoop sessionId) m =
     (if waiting (AwaitingMessageLoop sessionId) m then (AwaitingMessageLoop sessionId, m)
      else beginWriteLockFile rt now ByTerminateSession (unregister sessionId m))"
| "resume rt cfg now (Settled result) m = (Settled result, m)"

text \<open>
  A call run on without anything in between, until it has settled or has to wait for a
  message loop.
\<close>

fun stage :: "call \<Rightarrow> nat" where
  "stage EnsuringWorkspacesDir = 9"
| "stage ReadingLockFile = 8"
| "stage (RemovingListed sessionId rest) = 7"
| "stage ReadingWorkspacesDir = 6"
| "stage (RemovingUnlisted entry rest) = 5"
| "stage (CreatingWorkspace sessionId options) = 4"
| "stage (AwaitingMessageLoop sessionId) = 4"
| "stage (WritingLockFile content caller) = 3"
| "stage (RenamingLockFile caller) = 2"
| "stage (Settled result) = 0"

fun turnsLeft :: "call \<Rightarrow> nat" where
  "turnsLeft (RemovingListed sessionId rest) = length rest"
| "turnsLeft (RemovingUnlisted entry rest) = length rest"
| "turnsLeft c = 0"

fun settled :: "call \<Rightarrow> bool" where
  "settled (Settled result) = True"
| "settled c = False"

function finish :: "runtime \<Rightarrow> config \<Rightarrow> nat \<Rightarrow> call \<times> manager \<Rightarrow> call \<times> manager" where
  "finish rt cfg now (c, m) =
     (if settled c \<or> waiting c m then (c, m)
      else finish rt cfg now (resume rt cfg now c m))"
  by pat_completeness auto
termination
proof (relation "measures [\<lambda>(rt, cfg, now, c, m). stage c, \<lambda>(rt, cfg, now, c, m). turnsLeft c]")
  show "wf (measures [\<lambda>(rt, cfg, now, c, m). stage c, \<lambda>(rt, cfg, now, c, m). turnsLeft c])"
    by simp
next
  fix rt :: runtime and cfg :: config and now :: nat and c :: call and m :: manager
  assume going: "\<not> (settled c \<or> waiting c m)"
  have listed: "stage (nextListed ids) < 7
      \<or> stage (nextListed ids) = 7 \<and> turnsLeft (nextListed ids) < length ids"
    for ids :: "string list"
    by (cases ids) simp_all
  have unlisted: "stage (nextUnlisted rt now m' entries) < 5
      \<or> stage (nextUnlisted rt now m' entries) = 5
         \<and> turnsLeft (nextUnlisted rt now m' entries) < length entries"
    for entries :: "(string \<times> bool) list" and m' :: manager
    by (induction entries) (auto simp: beginWriteLockFile_def)
  have "stage (fst (resume rt cfg now c m)) < stage c
      \<or> stage (fst (resume rt cfg now c m)) = stage c
         \<and> turnsLeft (fst (resume rt cfg now c m)) < turnsLeft c"
  proof (cases c)
    case EnsuringWorkspacesDir
    then show ?thesis by (simp split: prod.splits sum.splits)
  next
    case ReadingLockFile
    have "stage (nextListed ids) < 8" for ids
      by (cases ids) simp_all
    then show ?thesis
      using ReadingLockFile
      by (auto simp: beginWriteLockFile_def split: prod.splits sum.splits file_content.splits)
  next
    case (RemovingListed sessionId rest)
    then show ?thesis using listed [of rest] by auto
  next
    case ReadingWorkspacesDir
    have "stage (nextUnlisted rt now m' entries) < 6" for m' entries
      by (induction entries) (auto simp: beginWriteLockFile_def)
    then show ?thesis
      using ReadingWorkspacesDir
      by (auto simp: beginWriteLockFile_def split: prod.splits sum.splits)
  next
    case (RemovingUnlisted entry rest)
    then show ?thesis
      using unlisted [of "removeUnlisted rt cfg entry m" rest] by auto
  next
    case (WritingLockFile content caller)
    then show ?thesis by (simp split: prod.splits sum.splits)
  next
    case (RenamingLockFile caller)
    then show ?thesis by (simp split: prod.splits sum.splits)
  next
    case (CreatingWorkspace sessionId options)
    then show ?thesis by (simp add: beginWriteLockFile_def split: prod.splits sum.splits)
  next
    case (AwaitingMessageLoop sessionId)
    then show ?thesis using going by (simp add: beginWriteLockFile_def)
  next
    case (Settled result)
    then show ?thesis using going by simp
  qed
  then show "((rt, cfg, now, resume rt cfg now c m), rt, cfg, now, c, m)
      \<in> measures [\<lambda>(rt, cfg, now, c, m). stage c, \<lambda>(rt, cfg, now, c, m). turnsLeft c]"
    by (auto simp: case_prod_beta)
qed

declare finish.simps [simp del]

subsection \<open>What happens to the manager, in the order it happens\<close>

text \<open>
  The manager's entry points are called, suspended calls go on (\<open>Resume\<close>, by their
  place in the list of calls), the message loop of a session ends, a session emits an
  event, the manager's timers fire. \<open>run\<close> takes these one after the other, each with
  the time at which it happens. What the synchronous entry points return is not kept.
\<close>

datatype action =
    CallInitialize
  | CallCreateSession create_options
  | CallTerminateSession string
  | Resume nat
  | LoopEnds string "string option"
  | Emit string session_event
  | TimersFire
  | CallAnswerQuestion string string
  | CallRespondToPermission string string
  | CallReadMessageHistory string

fun perform :: "runtime \<Rightarrow> config \<Rightarrow> nat \<times> action \<Rightarrow> call list \<times> manager \<Rightarrow> call list \<times> manager" where
  "perform rt cfg (now, CallInitialize) (calls, m) =
     (calls @ [fst (beginInitialize m)], snd (beginInitialize m))"
| "perform rt cfg (now, CallCreateSession options) (calls, m) =
     (calls @ [fst (beginCreateSession rt cfg options m)], snd (beginCreateSession rt cfg options m))"
| "perform rt cfg (now, CallTerminateSession sessionId) (calls, m) =
     (calls @ [fst (beginTerminateSession rt cfg now sessionId m)],
      snd (beginTerminateSession rt cfg now sessionId m))"
| "perform rt cfg (now, Resume i) (calls, m) =
     (if i < length calls
      then (calls[i := fst (resume rt cfg now (calls ! i) m)], snd (resume rt cfg now (calls ! i) m))
      else (calls, m))"
| "perform rt cfg (now, LoopEnds sessionId loopError) (calls, m) =
     (calls, inSession rt cfg now sessionId (loopEnds loopError) m)"
| "perform rt cfg (now, Emit sessionId event) (calls, m) =
     (calls, handleSessionEvent rt cfg now sessionId event m)"
| "perform rt cfg (now, TimersFire) (calls, m) = (calls, runTimeouts now m)"
| "perform rt cfg (now, CallAnswerQuestion questionId answer) (calls, m) =
     (calls, snd (answerQuestion questionId answer m))"
| "perform rt cfg (now, CallRespondToPermission permissionId decision) (calls, m) =
     (calls, snd (respondToPermission permissionId decision m))"
| "perform rt cfg (now, CallReadMessageHistory sessionId) (calls, m) =
     (calls, snd (readMessageHistory sessionId m))"

definition run ::
  "runtime \<Rightarrow> config \<Rightarrow> (nat \<times> action) list \<Rightarrow> call list \<times> manager \<Rightarrow> call list \<times> manager" where
  "run rt cfg steps state = fold (perform rt cfg) steps state"

subsection \<open>Files of a workspace\<close>

definition resolveWorkspacePath ::
  "runtime \<Rightarrow> config \<Rightarrow> string \<Rightarrow> manager \<Rightarrow> (app_error + string) \<times> manager" where
  "resolveWorkspacePath rt cfg sessionId m =
     (case map_of (sessions m) sessionId of
        Some s \<Rightarrow> (Inr (cwd s), m)
      | None \<Rightarrow>
          (case awaitStat rt (pathJoin (workspacesDir cfg) sessionId) m of
             (Inl e, m1) \<Rightarrow> (Inl (WorkspaceNotFoundError sessionId), m1)
           | (Inr n, m1) \<Rightarrow> (Inr (pathJoin (workspacesDir cfg) sessionId), m1)))"

text \<open>\<open>fullPath.startsWith(workspacePath)\<close> is \<open>prefix workspacePath fullPath\<close>.\<close>

definition readSessionFile ::
  "runtime \<Rightarrow> config \<Rightarrow> string \<Rightarrow> string \<Rightarrow> manager \<Rightarrow> app_error + file_content" where
  "readSessionFile rt cfg sessionId relativePath m =
     (case resolveWorkspacePath rt cfg sessionId m of
        (Inl e, m1) \<Rightarrow> Inl e
      | (Inr workspacePath, m1) \<Rightarrow>
          (let fullPath = pathResolve (processCwd rt) workspacePath relativePath
           in if \<not> prefix workspacePath fullPath
              then Inl (FileAccessError ''Access denied: Path is outside session workspace'')
              else case fst (awaitReadFile rt fullPath m1) of
                     Inr content \<Rightarrow> Inr content
                   | Inl e \<Rightarrow>
                       if e = ENOENT
                       then Inl (FileAccessError (''File not found: '' @ relativePath))
                       else Inl (FileAccessError (''Failed to read file: '' @ relativePath))))"

definition entryPath :: "string \<Rightarrow> (string \<times> bool) \<Rightarrow> string" where
  "entryPath relativePath entry =
     (let path = (if relativePath \<noteq> [] then relativePath @ ''/'' @ fst entry else fst entry)
      in if snd entry then path @ ''/'' else path)"

definition listSessionFiles ::
  "runtime \<Rightarrow> config \<Rightarrow> string \<Rightarrow> string \<Rightarrow> manager \<Rightarrow> app_error + string list" where
  "listSessionFiles rt cfg sessionId relativePath m =
     (case resolveWorkspacePath rt cfg sessionId m of
        (Inl e, m1) \<Rightarrow> Inl e
      | (Inr workspacePath, m1) \<Rightarrow>
          (let fullPath = pathResolve (processCwd rt) workspacePath relativePath
           in if \<not> prefix workspacePath fullPath
              then Inl (FileAccessError ''Access denied: Path is outside session workspace'')
              else case fst (awaitReaddir rt fullPath m1) of
                     Inr entries \<Rightarrow> Inr (map (entryPath relativePath) entries)
                   | Inl e \<Rightarrow>
                       (let shown = (if relativePath \<noteq> [] then relativePath else ''/'')
                        in if e = ENOENT
                           then Inl (FileAccessError (''Directory not found: '' @ shown))
                           else Inl (FileAccessError (''Failed to list directory: '' @ shown)))))"

text \<open>Of the result of \<open>stat\<close> the model keeps the path and \<open>isDirectory\<close>.\<close>

definition getSessionFileInfo ::
  "runtime \<Rightarrow> config \<Rightarrow> string \<Rightarrow> string \<Rightarrow> manager \<Rightarrow> app_error + (string \<times> bool)" where
  "getSessionFileInfo rt cfg sessionId relativePath m =
     (case resolveWorkspacePath rt cfg sessionId m of
        (Inl e, m1) \<Rightarrow> Inl e
      | (Inr workspacePath, m1) \<Rightarrow>
          (let fullPath = pathResolve (processCwd rt) workspacePath relativePath
           in if \<not> prefix workspacePath fullPath
              then Inl (FileAccessError ''Access denied: Path is outside session workspace'')
              else case fst (awaitStat rt fullPath m1) of
                     Inr n \<Rightarrow> Inr (relativePath, n = Dir)
                   | Inl e \<Rightarrow>
                       if e = ENOENT
                       then Inl (FileAccessError (''File not found: '' @ relativePath))
                       else Inl (FileAccessError (''Failed to stat file: '' @ relativePath))))"


section \<open>Notions used to state the properties\<close>

subsection \<open>Webhook delivery\<close>

text \<open>The answers of the endpoint by class.\<close>

definition serverError :: "response \<Rightarrow> bool" where
  "serverError r = (case r of Status code \<Rightarrow> 500 \<le> code \<and> code < 600 | TransportError \<Rightarrow> False)"

definition clientError :: "response \<Rightarrow> bool" where
  "clientError r = (case r of Status code \<Rightarrow> 400 \<le> code \<and> code < 500 | TransportError \<Rightarrow> False)"

subsection \<open>Sessions\<close>

text \<open>
  The operations that leave the status of a session as it is: \<open>setPermissionMode\<close>, and
  a \<open>cancel\<close> whose interrupt request is rejected.
\<close>

fun keepsStatus :: "session_op \<Rightarrow> bool" where
  "keepsStatus (SendPrompt now prompt) = False"
| "keepsStatus (SendSlashCommand now command args) = False"
| "keepsStatus (Cancel sdk) = (sdk \<noteq> None)"
| "keepsStatus (SetPermissionMode mode sdk) = True"

text \<open>
  The event loop of the runtime, for one session: when a message of the query stream
  arrives at time \<open>now\<close>, the timers that were due by then have fired, and the message
  loop handles the message. \<open>arriveAll\<close> is a sequence of such arrivals.
\<close>

definition arrive :: "nat \<Rightarrow> sdk_message \<Rightarrow> session \<Rightarrow> session_event list \<times> session" where
  "arrive now message s =
     (let (es1, s1) = runTimers now s;
          (es2, s2) = processMessage now message s1
      in (es1 @ es2, s2))"

fun arriveAll :: "(nat \<times> sdk_message) list \<Rightarrow> session \<Rightarrow> session_event list \<times> session" where
  "arriveAll [] s = ([], s)"
| "arriveAll (arrival # rest) s =
     (let (es1, s1) = arrive (fst arrival) (snd arrival) s;
          (es2, s2) = arriveAll rest s1
      in (es1 @ es2, s2))"

text \<open>A text fragment as the stream delivers it, and a list of timed fragments.\<close>

definition textMessage :: "string \<Rightarrow> sdk_message" where
  "textMessage text = StreamEvent (ContentBlock (TextBlock text))"

definition fragments :: "(nat \<times> string) list \<Rightarrow> (nat \<times> sdk_message) list" where
  "fragments timed = map (\<lambda>fragment. (fst fragment, textMessage (snd fragment))) timed"

text \<open>The one event a flush of text \<open>text\<close> emits: none for the empty string.\<close>

definition chunkOf :: "string \<Rightarrow> session_event list" where
  "chunkOf text = (if text = [] then [] else [MessageChunk text])"

text \<open>The \<open>message_chunk\<close> events among the events emitted.\<close>

fun isMessageChunk :: "session_event \<Rightarrow> bool" where
  "isMessageChunk (MessageChunk content) = True"
| "isMessageChunk event = False"

text \<open>What text aggregation reads and writes of a session.\<close>

definition textView :: "session \<Rightarrow> string \<times> nat option \<times> bool \<times> bool" where
  "textView s = (textBuffer s, textFlushTimeout s, loopRunning s, cancelled s)"

text \<open>
  What tool correlation reads and writes of a session, and the call ids that the armed
  time-to-live timers were set for.
\<close>

definition toolView ::
  "session \<Rightarrow> (string \<times> string) list \<times> (string \<times> nat) list \<times> (nat \<times> string \<times> nat) list" where
  "toolView s = (toolCallNames s, toolCallTimers s, ttlTimeouts s)"



text \<open>
  The blocks of the assistant messages that the running loop reads, handled one after
  the other, each with the time at which it is handled: the timers due by then have
  fired before.
\<close>

definition handleBlock :: "nat \<times> content_block \<Rightarrow> session \<Rightarrow> session" where
  "handleBlock step s = snd (processBlock (fst step) (snd step) (snd (runTimers (fst step) s)))"

definition handleBlocks :: "(nat \<times> content_block) list \<Rightarrow> session \<Rightarrow> session" where
  "handleBlocks steps s = fold handleBlock steps s"


text \<open>
  The handles in use for time-to-live timers are among those \<open>setTimeout\<close> has given out
  so far. This holds in a new session and stays true whatever the session does.
\<close>

definition handlesGiven :: "session \<Rightarrow> bool" where
  "handlesGiven s =
     ((\<forall>timer \<in> set (ttlTimeouts s). fst timer < nextHandle s)
      \<and> (\<forall>entry \<in> set (toolCallTimers s). snd entry < nextHandle s))"



subsection \<open>The session manager\<close>

text \<open>
  The ids of the registry, and the session ids of the lock file that a reader finds on
  the disk (when the file is there, can be read and parses).
\<close>

definition registryIds :: "manager \<Rightarrow> string list" where
  "registryIds m = map fst (sessions m)"

definition persistedSessionIds :: "runtime \<Rightarrow> config \<Rightarrow> manager \<Rightarrow> string list option" where
  "persistedSessionIds rt cfg m =
     (case fsReadFile (\<lambda>operation. False) (processCwd rt) (disk m) (lockFilePath cfg) of
        Inr (LockJson content) \<Rightarrow> Some (sessionIds content)
      | _ \<Rightarrow> None)"

text \<open>
  A path lies inside a workspace when it is the workspace's root directory or a path
  below it.
\<close>

definition under :: "string \<Rightarrow> string \<Rightarrow> bool" where
  "under dir path = (path = dir \<or> prefix (dir @ ''/'') path)"

definition insideWorkspace :: "string \<Rightarrow> string \<Rightarrow> bool" where
  "insideWorkspace workspacePath fullPath = under workspacePath fullPath"

text \<open>
  Nothing is left of what a path named: where the path leads on the disk, there is
  nothing, and nothing below. (A path may lead nowhere, when a directory on its way is
  gone; the root directory of the disk always is there.)
\<close>

definition removed :: "runtime \<Rightarrow> filesystem \<Rightarrow> string \<Rightarrow> bool" where
  "removed rt fs path =
     (\<forall>loc. locate (processCwd rt) fs path = Inr loc \<and> loc \<noteq> [] \<longrightarrow>
        (\<forall>entry \<in> set fs. \<not> prefix loc (fst entry)))"

text \<open>
  The chunks cached for a session, and the contents of the \<open>message_chunk\<close> events that
  a session emits in the course of a run.
\<close>

definition cachedChunks :: "string \<Rightarrow> manager \<Rightarrow> string list" where
  "cachedChunks sessionId m =
     (case map_of (messageChunks m) sessionId of None \<Rightarrow> [] | Some chunks \<Rightarrow> chunks)"

fun emitted :: "string \<Rightarrow> action \<Rightarrow> string list" where
  "emitted sessionId (Emit sender (MessageChunk content)) =
     (if sender = sessionId then [content] else [])"
| "emitted sessionId other = []"

definition chunksEmitted :: "string \<Rightarrow> (nat \<times> action) list \<Rightarrow> string list" where
  "chunksEmitted sessionId steps = concat (map (\<lambda>step. emitted sessionId (snd step)) steps)"

text \<open>
  What leaves the history of a session alone: everything but reading that history and
  terminating that session.
\<close>

fun keepsHistory :: "string \<Rightarrow> action \<Rightarrow> bool" where
  "keepsHistory sessionId (CallReadMessageHistory i) = (i \<noteq> sessionId)"
| "keepsHistory sessionId (CallTerminateSession i) = (i \<noteq> sessionId)"
| "keepsHistory sessionId other = True"

text \<open>
  The calls of \<open>resolve\<close> and \<open>reject\<close> that belong to one pending entry, and the entries
  that an armed timer is set for.
\<close>

fun settles :: "pending_ref \<Rightarrow> settlement \<Rightarrow> bool" where
  "settles entry (ResolveCalled e answer) = (e = entry)"
| "settles entry (RejectCalled e reason) = (e = entry)"

definition settlementsOf :: "pending_ref \<Rightarrow> manager \<Rightarrow> settlement list" where
  "settlementsOf entry m = filter (settles entry) (settlements m)"

definition timedEntries :: "manager \<Rightarrow> pending_ref set" where
  "timedEntries m = (\<lambda>timer. fst (snd timer)) ` set (timeouts m)"

text \<open>
  What the pending requests depend on: the two maps, the timers and their handles, the
  variables \<open>completed\<close>, the calls made, and the identifiers drawn.
\<close>

definition pendingView ::
  "manager \<Rightarrow> (string \<times> pending_question) list \<times> (string \<times> pending_permission) list
     \<times> (nat \<times> pending_ref \<times> nat) list \<times> nat \<times> nat list \<times> settlement list \<times> nat" where
  "pendingView m =
     (pendingQuestions m, pendingPermissions m, timeouts m, nextTimeout m, completedFlags m,
      settlements m, uuidsDrawn m)"

text \<open>
  What the runtime sees to, in every state the manager gets into: the handles in use,
  for timers and in the pending entries, are among those \<open>setTimeout\<close> has given out so
  far, and the entries that timers are set for carry identifiers that \<open>randomUUID\<close> has
  returned so far.
\<close>

definition drawn :: "runtime \<Rightarrow> manager \<Rightarrow> string \<Rightarrow> bool" where
  "drawn rt m i = (\<exists>k < uuidsDrawn m. i = randomUUID rt k)"

fun refId :: "pending_ref \<Rightarrow> string" where
  "refId (QuestionRef i) = i"
| "refId (PermissionRef i) = i"

definition wellKept :: "runtime \<Rightarrow> manager \<Rightarrow> bool" where
  "wellKept rt m =
     ((\<forall>timer \<in> set (timeouts m). fst timer < nextTimeout m \<and> drawn rt m (refId (fst (snd timer))))
      \<and> (\<forall>entry \<in> set (pendingQuestions m). questionTimeoutId (snd entry) < nextTimeout m)
      \<and> (\<forall>entry \<in> set (pendingPermissions m). permissionTimeoutId (snd entry) < nextTimeout m))"

text \<open>
  A question of session \<open>sessionId\<close> is outstanding: it is pending under its id with the
  handle of its timer, the timer is armed for the deadline, it is the only timer with
  that handle and the only one for that question, no other pending entry holds the
  handle, and the closures of the entry have not completed.
\<close>

definition outstanding :: "runtime \<Rightarrow> string \<Rightarrow> string \<Rightarrow> nat \<Rightarrow> nat \<Rightarrow> manager \<Rightarrow> bool" where
  "outstanding rt sessionId questionId handle deadline m =
     ((\<exists>pending. map_of (pendingQuestions m) questionId = Some pending
          \<and> questionTimeoutId pending = handle \<and> questionSession pending = sessionId)
      \<and> handle \<notin> set (completedFlags m)
      \<and> (handle, QuestionRef questionId, deadline) \<in> set (timeouts m)
      \<and> (\<forall>timer \<in> set (timeouts m).
            fst timer = handle \<or> fst (snd timer) = QuestionRef questionId \<longrightarrow>
            timer = (handle, QuestionRef questionId, deadline))
      \<and> (\<forall>entry \<in> set (pendingQuestions m).
            questionTimeoutId (snd entry) = handle \<longrightarrow> fst entry = questionId)
      \<and> (\<forall>entry \<in> set (pendingPermissions m). permissionTimeoutId (snd entry) \<noteq> handle)
      \<and> handle < nextTimeout m
      \<and> drawn rt m questionId)"

text \<open>
  A question is settled for good: it is not pending, no timer is set for it, and its
  identifier has been drawn (so that no later question gets it).
\<close>

definition closed :: "runtime \<Rightarrow> string \<Rightarrow> manager \<Rightarrow> bool" where
  "closed rt questionId m =
     (map_of (pendingQuestions m) questionId = None
      \<and> QuestionRef questionId \<notin> timedEntries m
      \<and> drawn rt m questionId)"

text \<open>
  What does not disturb a question of a session: everything but answering that question
  and terminating that session.
\<close>

fun undisturbed :: "string \<Rightarrow> string \<Rightarrow> action \<Rightarrow> bool" where
  "undisturbed sessionId questionId (CallAnswerQuestion i answer) = (i \<noteq> questionId)"
| "undisturbed sessionId questionId (CallTerminateSession i) = (i \<noteq> sessionId)"
| "undisturbed sessionId questionId other = True"

text \<open>
  Two states of the manager that differ at most in the disk, the count of file
  operations and the warnings logged.
\<close>

definition diskOnly :: "manager \<Rightarrow> manager \<Rightarrow> bool" where
  "diskOnly m m' = (m' = m\<lparr>disk := disk m', fsOps := fsOps m', warnings := warnings m'\<rparr>)"


subsection \<open>Concrete inputs\<close>

text \<open>
  A batch of one update; a session just created; a session on which \<open>terminate\<close> has
  completed; a session whose message loop has thrown.
\<close>

definition sampleBatch :: "(string \<times> session_event) list" where
  "sampleBatch = [(''s1'', SessionEnded Completed)]"

definition idleSession :: session where
  "idleSession = newSession 0 ''s1'' ''/ws/s1'' None"

definition terminatedSession :: session where
  "terminatedSession = snd (terminate None (newSession 0 ''s1'' ''/ws/s1'' None))"

definition failedSession :: session where
  "failedSession = snd (loopFailed ''stream closed'' (newSession 0 ''s1'' ''/ws/s1'' None))"


text \<open>
  A configuration with room for one session and one with room for five. A runtime in
  which no file operation fails and process 4242, the process itself, is the only one
  running.
\<close>

definition sampleConfig :: config where
  "sampleConfig = \<lparr> maxSessions = 1, sessionTimeoutMs = 3600000, bypassPermissions = True,
     workspacesDir = ''/ws'', onEventSet = True \<rparr>"

definition roomyConfig :: config where
  "roomyConfig = sampleConfig\<lparr>maxSessions := 5\<rparr>"

definition sampleRuntime :: runtime where
  "sampleRuntime = \<lparr> fault = (\<lambda>k operation. False), isProcessRunning = (\<lambda>p. p = 4242),
     processPid = 4242, processCwd = ''/srv'', randomUUID = (\<lambda>n. replicate (Suc n) CHR ''u'') \<rparr>"

text \<open>
  A manager whose registry holds one session, and the same with one chunk cached for
  that session.
\<close>

definition fullManager :: manager where
  "fullManager = (newManager [([''ws''], Dir), ([''ws'', ''a1''], Dir)])
     \<lparr>sessions := [(''a1'', newSession 0 ''a1'' ''/ws/a1'' None)]\<rparr>"

definition historyManager :: manager where
  "historyManager = fullManager\<lparr>messageChunks := [(''a1'', [''old''])]\<rparr>"

text \<open>
  A session with its workspace, and beside the workspace a directory whose name begins
  with the session's id.
\<close>

definition ownerId :: string where
  "ownerId = ''0b7e4c1a-5d2f-4e8b-9a3c-6f1d2e3b4c5d''"

definition siblingDisk :: filesystem where
  "siblingDisk =
     [([''ws''], Dir),
      ([''ws'', ''0b7e4c1a-5d2f-4e8b-9a3c-6f1d2e3b4c5d''], Dir),
      ([''ws'', ''0b7e4c1a-5d2f-4e8b-9a3c-6f1d2e3b4c5d'', ''app.ts''], File (Text ''code'')),
      ([''ws'', ''0b7e4c1a-5d2f-4e8b-9a3c-6f1d2e3b4c5d-old''], Dir),
      ([''ws'', ''0b7e4c1a-5d2f-4e8b-9a3c-6f1d2e3b4c5d-old'', ''secret.txt''], File (Text ''token''))]"

definition siblingManager :: manager where
  "siblingManager = (newManager siblingDisk)
     \<lparr>sessions := [(ownerId, newSession 0 ownerId (''/ws/'' @ ownerId) None)]\<rparr>"


section \<open>Properties of the webhook delivery\<close>

lemma sendLoop_retry:
  assumes "attempt < maxRetries" "serverError (endpoint attempt)"
  shows "sendLoop endpoint updates maxRetries attempt =
           Request updates #
           (if attempt < maxRetries - 1 then [Sleep (2 ^ attempt * 100)] else [])
           @ sendLoop endpoint updates maxRetries (attempt + 1)"
  using assms
  by (subst sendLoop.simps) (auto simp: serverError_def split: response.splits)

lemma sendLoop_exhausted: "sendLoop endpoint updates maxRetries maxRetries = [ExhaustedDrop]"
  by (subst sendLoop.simps) simp

lemma sendLoop_client:
  assumes "attempt < maxRetries" "endpoint attempt = Status code" "400 \<le> code" "code < 500"
  shows "sendLoop endpoint updates maxRetries attempt = [Request updates, ClientErrorDrop code]"
  using assms by (subst sendLoop.simps) simp

lemma sendToPoke_server_errors:
  assumes "\<forall>attempt < defaultMaxRetries. serverError (endpoint attempt)"
  shows "sendToPoke endpoint updates defaultMaxRetries =
     [Request updates, Sleep 100, Request updates, Sleep 200, Request updates, ExhaustedDrop]"
proof -
  have e: "serverError (endpoint 0)" "serverError (endpoint (Suc 0))"
      "serverError (endpoint (Suc (Suc 0)))"
    using assms by (simp_all add: defaultMaxRetries_def)
  have l2: "sendLoop endpoint updates 3 (Suc (Suc 0)) = [Request updates, ExhaustedDrop]"
    using sendLoop_retry [of "Suc (Suc 0)" 3 endpoint updates] e(3)
      sendLoop_exhausted [of endpoint updates 3]
    by (simp add: eval_nat_numeral)
  have l1: "sendLoop endpoint updates 3 (Suc 0) =
      [Request updates, Sleep 200, Request updates, ExhaustedDrop]"
    using sendLoop_retry [of "Suc 0" 3 endpoint updates] e(2) l2 by simp
  have l0: "sendLoop endpoint updates 3 0 =
      [Request updates, Sleep 100, Request updates, Sleep 200, Request updates, ExhaustedDrop]"
    using sendLoop_retry [of 0 3 endpoint updates] e(1) l1 by simp
  show ?thesis
    using l0 by (simp add: sendToPoke_def defaultMaxRetries_def)
qed

lemma sendToPoke_client_error:
  assumes "clientError (endpoint 0)"
  shows "\<exists>code. endpoint 0 = Status code
     \<and> sendToPoke endpoint updates defaultMaxRetries = [Request updates, ClientErrorDrop code]"
proof -
  obtain code where c: "endpoint 0 = Status code" "400 \<le> code" "code < 500"
    using assms by (auto simp: clientError_def split: response.splits)
  have "sendToPoke endpoint updates defaultMaxRetries = [Request updates, ClientErrorDrop code]"
    using sendLoop_client [of 0 3 endpoint code updates] c
    by (simp add: sendToPoke_def defaultMaxRetries_def)
  then show ?thesis using c(1) by blast
qed

text \<open>
  Claim C2 fails on the code. The comment in \<open>sendToPoke\<close> names three back-off delays,
  100 ms, 200 ms and 400 ms, and the project's notes say that a failed webhook is retried
  three times. With the answer 500 to every request the batch is sent three times in all,
  the first request and two more, with the delays 100 ms and 200 ms between them; the
  third retry and the delay of 400 ms never come, and the batch is dropped. (With the
  answer 400 the batch is sent once and dropped, as claimed.)
\<close>

theorem sendToPoke_gives_up_after_two_retries:
  "sendToPoke (always (Status 500)) sampleBatch defaultMaxRetries =
     [Request sampleBatch, Sleep 100, Request sampleBatch, Sleep 200, Request sampleBatch,
      ExhaustedDrop]
   \<and> attempts (sendToPoke (always (Status 500)) sampleBatch defaultMaxRetries) = 3
   \<and> delays (sendToPoke (always (Status 500)) sampleBatch defaultMaxRetries) = [100, 200]
   \<and> sendToPoke (always (Status 400)) sampleBatch defaultMaxRetries =
       [Request sampleBatch, ClientErrorDrop 400]"
proof -
  have run: "sendToPoke (always (Status 500)) sampleBatch defaultMaxRetries =
     [Request sampleBatch, Sleep 100, Request sampleBatch, Sleep 200, Request sampleBatch,
      ExhaustedDrop]"
    by (rule sendToPoke_server_errors) (simp add: serverError_def always_def)
  have once: "sendToPoke (always (Status 400)) sampleBatch defaultMaxRetries =
       [Request sampleBatch, ClientErrorDrop 400]"
    using sendToPoke_client_error [of "always (Status 400)" sampleBatch]
    by (simp add: clientError_def always_def)
  show ?thesis
    by (simp add: run once attempts_def)
qed


section \<open>Properties of the session\<close>

subsection \<open>Status\<close>

lemma status_pushInput [simp]: "status (pushInput text s) = status s"
  by (simp add: pushInput_def)

lemma status_sendPrompt: "status (snd (sendPrompt now prompt s)) = Active"
  by (simp add: sendPrompt_def)

lemma status_sendSlashCommand: "status (snd (sendSlashCommand now command args s)) = Active"
  by (simp add: sendSlashCommand_def Let_def)

lemma status_cancel:
  "status (snd (snd (cancel sdk s))) = (case sdk of None \<Rightarrow> Idle | Some reason \<Rightarrow> status s)"
  by (simp add: cancel_def Let_def split: option.splits)

lemma status_setPermissionMode: "status (snd (snd (setPermissionMode mode sdk s))) = status s"
  by (simp add: setPermissionMode_def Let_def)

lemma status_flushTextBuffer [simp]: "status (snd (flushTextBuffer s)) = status s"
  by (simp add: flushTextBuffer_def Let_def)

lemma status_terminate: "status (snd (terminate loopError s)) = Terminated"
  by (simp add: terminate_def beginTerminate_def loopEnds_def Let_def flushTextBuffer_def
      streamEnded_def loopFailed_def split: prod.splits option.splits)

lemma status_applyOp:
  "status (applyOp op s) = (if keepsStatus op then status s
     else case op of Cancel sdk \<Rightarrow> Idle | _ \<Rightarrow> Active)"
  by (cases op) (auto simp: status_sendPrompt status_sendSlashCommand status_cancel
      status_setPermissionMode split: option.splits)

lemma applyOps_not_back:
  "status s \<noteq> Terminated \<Longrightarrow> status (applyOps ops s) \<noteq> Terminated"
proof (induction ops arbitrary: s)
  case Nil
  then show ?case by (simp add: applyOps_def)
next
  case (Cons op ops)
  have "status (applyOp op s) \<noteq> Terminated"
    using Cons.prems by (simp add: status_applyOp split: session_op.splits)
  then show ?case using Cons.IH by (simp add: applyOps_def)
qed

lemma applyOps_terminated:
  "status s = Terminated \<Longrightarrow>
     (status (applyOps ops s) = Terminated) = (\<forall>op \<in> set ops. keepsStatus op)"
proof (induction ops arbitrary: s)
  case Nil
  then show ?case by (simp add: applyOps_def)
next
  case (Cons op ops)
  show ?case
  proof (cases "keepsStatus op")
    case True
    then have "status (applyOp op s) = Terminated"
      using Cons.prems by (simp add: status_applyOp)
    then show ?thesis using Cons.IH True by (simp add: applyOps_def)
  next
    case False
    then have "status (applyOp op s) \<noteq> Terminated"
      by (simp add: status_applyOp split: session_op.splits)
    then have "status (applyOps ops (applyOp op s)) \<noteq> Terminated"
      by (rule applyOps_not_back)
    then show ?thesis using False by (simp add: applyOps_def)
  qed
qed


text \<open>
  The transitions of the status: \<open>sendPrompt\<close> and \<open>sendSlashCommand\<close> set it to active, a
  result message read by the running loop sets it to idle, \<open>terminate\<close> and a fatal error of
  the running loop set it to terminated, a \<open>cancel\<close> that completes sets it to idle; a
  \<open>cancel\<close> whose interrupt is rejected and \<open>setPermissionMode\<close> leave it.
\<close>

lemma status_transitions:
  "status (snd (sendPrompt now prompt s)) = Active"
  "status (snd (sendSlashCommand now command args s)) = Active"
  "loopRunning s \<and> \<not> cancelled s \<Longrightarrow> status (snd (processMessage now (Result success) s)) = Idle"
  "status (snd (terminate loopError s)) = Terminated"
  "loopRunning s \<Longrightarrow> status (snd (loopFailed message s)) = Terminated"
  "status (snd (snd (cancel None s))) = Idle"
  "status (snd (snd (cancel (Some reason) s))) = status s"
  "status (snd (snd (setPermissionMode mode sdk s))) = status s"
  by (simp_all add: status_sendPrompt status_sendSlashCommand status_terminate status_cancel
      status_setPermissionMode processMessage_def loopFailed_def)

lemma terminatedSession_eq:
  "terminatedSession = (newSession 0 ''s1'' ''/ws/s1'' None)
     \<lparr>cancelled := True, status := Terminated, inputEnded := True, loopRunning := False\<rparr>"
  by (simp add: terminatedSession_def terminate_def beginTerminate_def loopEnds_def newSession_def
      flushTextBuffer_def streamEnded_def Let_def)

lemma failedSession_eq:
  "failedSession = (newSession 0 ''s1'' ''/ws/s1'' None)
     \<lparr>loopRunning := False, status := Terminated, inputEnded := True\<rparr>"
  by (simp add: failedSession_def loopFailed_def newSession_def)

text \<open>
  Claim C3 fails on the code. The handler of the message loop marks the session as
  terminated and closes its input "to prevent zombie state", and \<open>terminate\<close> does the
  same; but no method of \<open>Session\<close> looks at the status. On a session that \<open>terminate\<close>
  has completed on, and on one whose message loop has thrown, \<open>sendPrompt\<close> sets the status
  to active although the prompt is dropped (the input has ended) and no loop is left to
  read an answer; a \<open>cancel\<close> that completes sets the status to idle.
\<close>

theorem terminated_session_made_active:
  "status terminatedSession = Terminated
   \<and> inputEnded terminatedSession \<and> \<not> loopRunning terminatedSession
   \<and> status (snd (sendPrompt 1 ''continue'' terminatedSession)) = Active
   \<and> inputQueue (snd (sendPrompt 1 ''continue'' terminatedSession)) = []
   \<and> inputEnded (snd (sendPrompt 1 ''continue'' terminatedSession))
   \<and> \<not> loopRunning (snd (sendPrompt 1 ''continue'' terminatedSession))
   \<and> status (applyOps [SendPrompt 1 ''continue''] terminatedSession) = Active
   \<and> status (applyOps [Cancel None] terminatedSession) = Idle
   \<and> status failedSession = Terminated
   \<and> status (snd (sendPrompt 1 ''continue'' failedSession)) = Active
   \<and> inputQueue (snd (sendPrompt 1 ''continue'' failedSession)) = []
   \<and> \<not> loopRunning (snd (sendPrompt 1 ''continue'' failedSession))"
  by (simp add: terminatedSession_eq failedSession_eq newSession_def applyOps_def sendPrompt_def
      pushInput_def cancel_def)


subsection \<open>Text aggregation\<close>

lemma textView_fold_ttlFired:
  "textView (fold (\<lambda>timer. ttlFired (f timer)) timers s) = textView s"
  by (induction timers arbitrary: s) (simp_all add: ttlFired_def textView_def)

lemma textView_ttl_update [simp]:
  "textView (s\<lparr>ttlTimeouts := x\<rparr>) = textView s"
  by (simp add: textView_def)

lemma runTimers_not_due:
  assumes "textView s = (buffer, timeout, True, False)"
    and "\<forall>deadline. timeout = Some deadline \<longrightarrow> now < deadline"
  shows "fst (runTimers now s) = [] \<and> textView (snd (runTimers now s)) = textView s"
proof -
  let ?s1 = "fold (\<lambda>timer. ttlFired (fst (snd timer))) (filter (dueTtl now) (ttlTimeouts s))
     (s\<lparr>ttlTimeouts := filter (\<lambda>timer. \<not> dueTtl now timer) (ttlTimeouts s)\<rparr>)"
  have v: "textView ?s1 = textView s"
    by (simp add: textView_fold_ttlFired)
  then have t: "textFlushTimeout ?s1 = timeout"
    using assms(1) by (simp add: textView_def)
  show ?thesis
  proof (cases timeout)
    case None
    then show ?thesis using t v by (simp add: runTimers_def Let_def)
  next
    case (Some deadline)
    then have "now < deadline" using assms(2) by simp
    then show ?thesis using t v Some by (simp add: runTimers_def Let_def)
  qed
qed

lemma runTimers_due:
  assumes "textView s = (buffer, Some deadline, running, stopped)" and "deadline \<le> now"
  shows "fst (runTimers now s) = chunkOf buffer
     \<and> textView (snd (runTimers now s)) = ([], None, running, stopped)"
proof -
  let ?s1 = "fold (\<lambda>timer. ttlFired (fst (snd timer))) (filter (dueTtl now) (ttlTimeouts s))
     (s\<lparr>ttlTimeouts := filter (\<lambda>timer. \<not> dueTtl now timer) (ttlTimeouts s)\<rparr>)"
  have v: "textView ?s1 = (buffer, Some deadline, running, stopped)"
    using assms(1) by (simp add: textView_fold_ttlFired)
  then have r: "runTimers now s = textFlushFired ?s1"
    using assms(2) by (simp add: runTimers_def Let_def textView_def)
  show ?thesis
    using v unfolding r
    by (simp add: textFlushFired_def flushTextBuffer_def Let_def textView_def chunkOf_def)
qed

lemma processMessage_text:
  assumes "textView s = (buffer, timeout, True, False)"
  shows "fst (processMessage now (textMessage text) s) = []
     \<and> textView (snd (processMessage now (textMessage text) s)) =
         (buffer @ text,
          (case timeout of None \<Rightarrow> Some (now + textFlushIntervalMs) | Some d \<Rightarrow> Some d),
          True, False)"
  using assms
  by (auto simp: processMessage_def textMessage_def bufferTextChunk_def textView_def Let_def
      split: option.splits)

lemma arrive_text:
  assumes "textView s = (buffer, timeout, True, False)"
    and "\<forall>deadline. timeout = Some deadline \<longrightarrow> now < deadline"
  shows "fst (arrive now (textMessage text) s) = []
     \<and> textView (snd (arrive now (textMessage text) s)) =
         (buffer @ text,
          (case timeout of None \<Rightarrow> Some (now + textFlushIntervalMs) | Some d \<Rightarrow> Some d),
          True, False)"
proof -
  have a: "fst (runTimers now s) = []"
    and b: "textView (snd (runTimers now s)) = (buffer, timeout, True, False)"
    using runTimers_not_due [OF assms] assms(1) by simp_all
  show ?thesis
    using a processMessage_text [OF b, of now "text"]
    by (simp add: arrive_def Let_def case_prod_beta)
qed

lemma arriveAll_window:
  assumes "textView s = (buffer, Some deadline, True, False)"
    and "\<forall>fragment \<in> set timed. fst fragment < deadline"
  shows "fst (arriveAll (fragments timed) s) = []
     \<and> textView (snd (arriveAll (fragments timed) s)) =
         (buffer @ concat (map snd timed), Some deadline, True, False)"
  using assms
proof (induction timed arbitrary: s buffer)
  case Nil
  then show ?case by (simp add: fragments_def)
next
  case (Cons fragment timed)
  have now: "\<forall>d. Some deadline = Some d \<longrightarrow> fst fragment < d"
    using Cons.prems(2) by simp
  have a: "fst (arrive (fst fragment) (textMessage (snd fragment)) s) = []"
    and b: "textView (snd (arrive (fst fragment) (textMessage (snd fragment)) s)) =
        (buffer @ snd fragment, Some deadline, True, False)"
    using arrive_text [OF Cons.prems(1) now, of "snd fragment"] by simp_all
  have rest: "\<forall>fragment \<in> set timed. fst fragment < deadline"
    using Cons.prems(2) by simp
  show ?case
    using a Cons.IH [OF b rest]
    by (simp add: fragments_def case_prod_beta)
qed

text \<open>
  Claim C7, as the code has it. Take a session whose loop is running, with an empty
  buffer and no flush timer, a first text fragment arriving at time \<open>first\<close> and any
  number of further fragments arriving before \<open>first + 50\<close>, with nothing else in
  between. No event is emitted while they arrive. When the flush timer fires, one
  \<open>message_chunk\<close> event is emitted, carrying the fragments' concatenation in order, if
  that text is not empty, and no event at all if every fragment is the empty string;
  the buffer is empty and the timer is gone. A fragment that arrives after that starts a
  buffer and a timer of its own, and is emitted by that timer as an event of its own
  (again unless it is empty).
\<close>

theorem text_window_single_chunk:
  assumes "loopRunning s" and "\<not> cancelled s"
    and "textBuffer s = []" and "textFlushTimeout s = None"
    and "\<forall>fragment \<in> set later. fst fragment < first + textFlushIntervalMs"
    and "first + textFlushIntervalMs \<le> fire"
  shows "fst (arriveAll (fragments ((first, text) # later)) s) = []
     \<and> fst (runTimers fire (snd (arriveAll (fragments ((first, text) # later)) s)))
         = chunkOf (concat (text # map snd later))
     \<and> textView (snd (runTimers fire (snd (arriveAll (fragments ((first, text) # later)) s))))
         = ([], None, True, False)
     \<and> (\<forall>arrival following. fire \<le> arrival \<longrightarrow>
          fst (arrive arrival (textMessage following)
                (snd (runTimers fire (snd (arriveAll (fragments ((first, text) # later)) s))))) = []
          \<and> textView (snd (arrive arrival (textMessage following)
                (snd (runTimers fire (snd (arriveAll (fragments ((first, text) # later)) s))))))
              = (following, Some (arrival + textFlushIntervalMs), True, False)
          \<and> fst (runTimers (arrival + textFlushIntervalMs) (snd (arrive arrival (textMessage following)
                (snd (runTimers fire (snd (arriveAll (fragments ((first, text) # later)) s)))))))
              = chunkOf following)"
proof -
  let ?window = "arriveAll (fragments ((first, text) # later)) s"
  let ?flushed = "snd (runTimers fire (snd ?window))"
  have v0: "textView s = ([], None, True, False)"
    using assms(1-4) by (simp add: textView_def)
  have a: "fst (arrive first (textMessage text) s) = []"
    and b: "textView (snd (arrive first (textMessage text) s)) =
        ([] @ text, Some (first + textFlushIntervalMs), True, False)"
    using arrive_text [OF v0, of first "text"] by simp_all
  have w: "fst (arriveAll (fragments later) (snd (arrive first (textMessage text) s))) = []
     \<and> textView (snd (arriveAll (fragments later) (snd (arrive first (textMessage text) s)))) =
         (([] @ text) @ concat (map snd later), Some (first + textFlushIntervalMs), True, False)"
    by (rule arriveAll_window [OF b assms(5)])
  have split: "?window =
      (fst (arrive first (textMessage text) s)
         @ fst (arriveAll (fragments later) (snd (arrive first (textMessage text) s))),
       snd (arriveAll (fragments later) (snd (arrive first (textMessage text) s))))"
    by (simp add: fragments_def case_prod_beta)
  have c1: "fst ?window = []"
    using a w by (simp add: split)
  have v1: "textView (snd ?window) =
      (concat (text # map snd later), Some (first + textFlushIntervalMs), True, False)"
    using w by (simp add: split)
  have c2: "fst (runTimers fire (snd ?window)) = chunkOf (concat (text # map snd later))"
    and c3: "textView ?flushed = ([], None, True, False)"
    using runTimers_due [OF v1 assms(6)] by simp_all
  have c4: "fst (arrive arrival (textMessage following) ?flushed) = []
      \<and> textView (snd (arrive arrival (textMessage following) ?flushed))
          = (following, Some (arrival + textFlushIntervalMs), True, False)
      \<and> fst (runTimers (arrival + textFlushIntervalMs) (snd (arrive arrival (textMessage following) ?flushed)))
          = chunkOf following" for arrival following
  proof -
    have d: "fst (arrive arrival (textMessage following) ?flushed) = []"
      and e: "textView (snd (arrive arrival (textMessage following) ?flushed))
          = (following, Some (arrival + textFlushIntervalMs), True, False)"
      using arrive_text [OF c3, of arrival following] by simp_all
    have "fst (runTimers (arrival + textFlushIntervalMs) (snd (arrive arrival (textMessage following) ?flushed)))
          = chunkOf following"
      using runTimers_due [OF e, of "arrival + textFlushIntervalMs"] by simp
    then show ?thesis using d e by simp
  qed
  show ?thesis using c1 c2 c3 c4 by blast
qed

text \<open>Three fragments at 10, 20 and 45 ms, flushed at 60 ms.\<close>

theorem text_window_single_chunk_witness:
  "loopRunning idleSession \<and> \<not> cancelled idleSession
   \<and> textBuffer idleSession = [] \<and> textFlushTimeout idleSession = None
   \<and> (20::nat) < 10 + textFlushIntervalMs \<and> (45::nat) < 10 + textFlushIntervalMs
   \<and> 10 + textFlushIntervalMs \<le> (60::nat)
   \<and> fst (arriveAll (fragments [(10, ''Hel''), (20, ''lo ''), (45, ''world'')]) idleSession) = []
   \<and> fst (runTimers 60
        (snd (arriveAll (fragments [(10, ''Hel''), (20, ''lo ''), (45, ''world'')]) idleSession)))
       = [MessageChunk ''Hello world'']"
  using text_window_single_chunk [of idleSession "[(20, ''lo ''), (45, ''world'')]" 10 60 "''Hel''"]
  by (simp add: idleSession_def newSession_def textFlushIntervalMs_def chunkOf_def)

text \<open>
  Claim C7 as stated, "for every sequence of N \<ge> 1 fragments exactly one event": one
  fragment that is the empty string (as the text of a \<open>content_block_start\<close> is) gives
  no event, neither on arrival nor when the timer fires.
\<close>

theorem empty_fragment_no_chunk_counterexample:
  "fst (arriveAll (fragments [(10, '''')]) idleSession) = []
   \<and> fst (runTimers 60 (snd (arriveAll (fragments [(10, '''')]) idleSession))) = []"
  by (simp add: idleSession_def newSession_def fragments_def textMessage_def arrive_def
      runTimers_def processMessage_def bufferTextChunk_def textFlushIntervalMs_def
      textFlushFired_def flushTextBuffer_def Let_def)

text \<open>
  The window may also be closed by an assistant message, which flushes the buffer before
  its blocks are handled. Whenever the message arrives, before the timer is due or
  after, the \<open>message_chunk\<close> events emitted until its blocks are handled are the one
  event of the window (none if the text is empty): the blocks themselves give none.
\<close>

lemma chunks_chunkOf [simp]: "filter isMessageChunk (chunkOf buffer) = chunkOf buffer"
  by (simp add: chunkOf_def)

lemma processBlock_no_chunk: "filter isMessageChunk (fst (processBlock now block s)) = []"
  by (auto simp: processBlock_def Let_def case_prod_beta
      split: content_block.splits tool_input.splits)

lemma processBlocks_no_chunk: "filter isMessageChunk (fst (processBlocks now blocks s)) = []"
  by (induction blocks arbitrary: s) (simp_all add: case_prod_beta Let_def processBlock_no_chunk)

lemma processMessage_assistant:
  assumes "textView s = (buffer, timeout, True, False)"
  shows "filter isMessageChunk (fst (processMessage now (Assistant content) s)) = chunkOf buffer"
  using assms
  by (auto simp: processMessage_def textView_def flushTextBuffer_def Let_def chunkOf_def
      case_prod_beta processBlocks_no_chunk split: option.splits)

lemma text_window_flushed_by_message:
  assumes "loopRunning s" and "\<not> cancelled s"
    and "textBuffer s = []" and "textFlushTimeout s = None"
    and "\<forall>fragment \<in> set later. fst fragment < first + textFlushIntervalMs"
  shows "filter isMessageChunk
           (fst (arrive now (Assistant content)
                  (snd (arriveAll (fragments ((first, wording) # later)) s))))
         = chunkOf (concat (wording # map snd later))"
proof -
  let ?window = "arriveAll (fragments ((first, wording) # later)) s"
  have v0: "textView s = ([], None, True, False)"
    using assms(1-4) by (simp add: textView_def)
  have b: "textView (snd (arrive first (textMessage wording) s)) =
        ([] @ wording, Some (first + textFlushIntervalMs), True, False)"
    using arrive_text [OF v0, of first wording] by simp
  have w: "textView (snd (arriveAll (fragments later) (snd (arrive first (textMessage wording) s))))
      = (([] @ wording) @ concat (map snd later), Some (first + textFlushIntervalMs), True, False)"
    using arriveAll_window [OF b assms(5)] by simp
  have v1: "textView (snd ?window) =
      (concat (wording # map snd later), Some (first + textFlushIntervalMs), True, False)"
    using w by (simp add: fragments_def case_prod_beta)
  show ?thesis
  proof (cases "first + textFlushIntervalMs \<le> now")
    case True
    have c: "fst (runTimers now (snd ?window)) = chunkOf (concat (wording # map snd later))"
      and d: "textView (snd (runTimers now (snd ?window))) = ([], None, True, False)"
      using runTimers_due [OF v1 True] by simp_all
    show ?thesis
      using c processMessage_assistant [OF d, of now content]
      by (simp add: arrive_def Let_def case_prod_beta chunkOf_def)
  next
    case False
    then have nd:
      "\<forall>deadline. Some (first + textFlushIntervalMs) = Some deadline \<longrightarrow> now < deadline"
      by simp
    have c: "fst (runTimers now (snd ?window)) = []"
      and d: "textView (snd (runTimers now (snd ?window))) =
          (concat (wording # map snd later), Some (first + textFlushIntervalMs), True, False)"
      using runTimers_not_due [OF v1 nd] v1 by simp_all
    show ?thesis
      using c processMessage_assistant [OF d, of now content]
      by (simp add: arrive_def Let_def case_prod_beta)
  qed
qed


subsection \<open>Tool correlation\<close>

lemma set_update_subset: "set (AList.update k v xs) \<subseteq> insert (k, v) (set xs)"
  by (induction xs) auto

lemma set_delete_subset: "set (AList.delete k xs) \<subseteq> set xs"
  by (induction xs) auto

lemma in_update: "e \<in> set (AList.update k v xs) \<Longrightarrow> e = (k, v) \<or> e \<in> set xs"
  using set_update_subset [of k v xs] by auto

lemma in_delete: "e \<in> set (AList.delete k xs) \<Longrightarrow> e \<in> set xs"
  using set_delete_subset [of k xs] by auto



lemma toolView_flushTextBuffer [simp]: "toolView (snd (flushTextBuffer s)) = toolView s"
  by (simp add: flushTextBuffer_def toolView_def Let_def)

lemma toolView_text_update [simp]:
  "toolView (s\<lparr>textFlushTimeout := x\<rparr>) = toolView s"
  by (simp add: toolView_def)

lemma nextHandle_flushTextBuffer [simp]: "nextHandle (snd (flushTextBuffer s)) = nextHandle s"
  by (simp add: flushTextBuffer_def Let_def)

lemma toolView_runTimers:
  "toolView (snd (runTimers now s)) =
     toolView (fold (\<lambda>timer. ttlFired (fst (snd timer))) (filter (dueTtl now) (ttlTimeouts s))
       (s\<lparr>ttlTimeouts := filter (\<lambda>timer. \<not> dueTtl now timer) (ttlTimeouts s)\<rparr>))"
  by (simp add: runTimers_def Let_def textFlushFired_def split: option.splits)

lemma fold_ttlFired_timeouts:
  "ttlTimeouts (fold (\<lambda>timer. ttlFired (f timer)) timers s) = ttlTimeouts s"
  by (induction timers arbitrary: s) (simp_all add: ttlFired_def)

lemma fold_ttlFired_nextHandle:
  "nextHandle (fold (\<lambda>timer. ttlFired (f timer)) timers s) = nextHandle s"
  by (induction timers arbitrary: s) (simp_all add: ttlFired_def)

lemma fold_ttlFired_timers_subset:
  "set (toolCallTimers (fold (\<lambda>timer. ttlFired (f timer)) timers s)) \<subseteq> set (toolCallTimers s)"
proof (induction timers arbitrary: s)
  case Nil
  then show ?case by simp
next
  case (Cons timer timers)
  have "set (toolCallTimers (ttlFired (f timer) s)) \<subseteq> set (toolCallTimers s)"
    using set_delete_subset [of "f timer" "toolCallTimers s"] by (simp add: ttlFired_def)
  then show ?case using Cons.IH [of "ttlFired (f timer) s"] by auto
qed

lemma nextHandle_runTimers: "nextHandle (snd (runTimers now s)) = nextHandle s"
  by (simp add: runTimers_def Let_def textFlushFired_def fold_ttlFired_nextHandle
      split: option.splits)




















text \<open>
  The condition on the handles is met by every session: it holds when the session is
  made and is kept by the timers and by every block.
\<close>

lemma handlesGiven_newSession: "handlesGiven (newSession now i dir mode)"
  by (simp add: handlesGiven_def newSession_def)

lemma handlesGiven_cong:
  assumes "toolView s' = toolView s" and "nextHandle s' = nextHandle s"
  shows "handlesGiven s' = handlesGiven s"
  using assms by (simp add: handlesGiven_def toolView_def)

lemma handlesGiven_runTimers:
  assumes "handlesGiven s"
  shows "handlesGiven (snd (runTimers now s))"
proof -
  let ?due = "filter (dueTtl now) (ttlTimeouts s)"
  let ?kept = "s\<lparr>ttlTimeouts := filter (\<lambda>timer. \<not> dueTtl now timer) (ttlTimeouts s)\<rparr>"
  let ?s' = "fold (\<lambda>timer. ttlFired (fst (snd timer))) ?due ?kept"
  have sub: "set (toolCallTimers ?s') \<subseteq> set (toolCallTimers s)"
    using fold_ttlFired_timers_subset [of "\<lambda>timer. fst (snd timer)" ?due ?kept] by simp
  have "handlesGiven ?s'"
    using assms sub
    by (auto simp: handlesGiven_def fold_ttlFired_timeouts fold_ttlFired_nextHandle)
  then show ?thesis
    using handlesGiven_cong [of "snd (runTimers now s)" ?s']
    by (simp add: toolView_runTimers nextHandle_runTimers fold_ttlFired_nextHandle)
qed

lemma handlesGiven_processBlock:
  assumes "handlesGiven s"
  shows "handlesGiven (snd (processBlock now block s))"
proof (cases block)
  case (ToolUse other toolName input)
  have s': "snd (processBlock now block s) = trackToolCall now other toolName s"
    by (simp add: ToolUse processBlock_def Let_def split: tool_input.splits)
  show ?thesis
    unfolding s' handlesGiven_def trackToolCall_def
    using assms in_update [of _ other "nextHandle s" "toolCallTimers s"]
    by (fastforce simp: handlesGiven_def less_Suc_eq)
next
  case (ToolResultBlock other content isError)
  have s': "snd (processBlock now block s) = snd (getToolName other s)"
    by (simp add: ToolResultBlock processBlock_def case_prod_beta)
  have "set (ttlTimeouts (snd (getToolName other s))) \<subseteq> set (ttlTimeouts s)"
    and "set (toolCallTimers (snd (getToolName other s))) \<subseteq> set (toolCallTimers s)"
    and "nextHandle (snd (getToolName other s)) = nextHandle s"
    using set_delete_subset [of other "toolCallTimers s"]
    by (auto simp: getToolName_def Let_def clearTimeout_def split: option.splits)
  then show ?thesis
    unfolding s' using assms by (auto simp: handlesGiven_def)
next
  case OtherBlock
  then show ?thesis using assms by (simp add: processBlock_def)
qed

lemma handlesGiven_handleBlocks:
  assumes "handlesGiven s"
  shows "handlesGiven (handleBlocks steps s)"
  using assms
proof (induction steps arbitrary: s)
  case Nil
  then show ?case by (simp add: handleBlocks_def)
next
  case (Cons step steps)
  have "handlesGiven (handleBlock step s)"
    unfolding handleBlock_def
    by (rule handlesGiven_processBlock [OF handlesGiven_runTimers [OF Cons.prems]])
  then show ?case using Cons.IH by (simp add: handleBlocks_def)
qed

section \<open>Properties of the session manager\<close>

subsection \<open>Capacity\<close>

text \<open>
  Claim C6. When the registry holds \<open>maxSessions\<close> sessions or more, \<open>createSession\<close>
  fails with \<open>SessionLimitError\<close> (code \<open>SESSION_LIMIT_REACHED\<close>) and returns the manager
  as it was: registry, pending requests, caches, timers and disk.
\<close>

theorem createSession_at_capacity:
  assumes "maxSessions cfg \<le> length (sessions m)"
  shows "createSession rt cfg now options m = (Inl (SessionLimitError (maxSessions cfg)), m)
     \<and> errorCode (SessionLimitError (maxSessions cfg)) = ''SESSION_LIMIT_REACHED''"
  using assms by (simp add: createSession_def)

text \<open>A registry of one session with room for one.\<close>

theorem createSession_at_capacity_witness:
  "maxSessions sampleConfig \<le> length (sessions fullManager)
   \<and> createSession sampleRuntime sampleConfig 5
        \<lparr>optionsCwd = ''/tmp'', optionsPermissionMode = None\<rparr> fullManager
      = (Inl (SessionLimitError 1), fullManager)"
  using createSession_at_capacity [of sampleConfig fullManager sampleRuntime 5
      "\<lparr>optionsCwd = ''/tmp'', optionsPermissionMode = None\<rparr>"]
  by (simp add: sampleConfig_def fullManager_def newManager_def)

text \<open>
  The call cut at its \<open>await\<close>s settles at once in that case, before it has awaited
  anything.
\<close>

lemma beginCreateSession_at_capacity:
  assumes "maxSessions cfg \<le> length (sessions m)"
  shows "beginCreateSession rt cfg options m
     = (Settled (Threw (SessionLimitError (maxSessions cfg))), m)"
  using assms by (simp add: beginCreateSession_def)


subsection \<open>Files of a workspace\<close>

lemma owner_workspace:
  "resolveWorkspacePath sampleRuntime sampleConfig ownerId siblingManager
     = (Inr ''/ws/0b7e4c1a-5d2f-4e8b-9a3c-6f1d2e3b4c5d'', siblingManager)"
  by (simp add: resolveWorkspacePath_def siblingManager_def newManager_def newSession_def
      ownerId_def)

lemma sibling_resolved:
  "pathResolve ''/srv'' ''/ws/0b7e4c1a-5d2f-4e8b-9a3c-6f1d2e3b4c5d''
      ''../0b7e4c1a-5d2f-4e8b-9a3c-6f1d2e3b4c5d-old/secret.txt''
     = ''/ws/0b7e4c1a-5d2f-4e8b-9a3c-6f1d2e3b4c5d-old/secret.txt''"
  "pathResolve ''/srv'' ''/ws/0b7e4c1a-5d2f-4e8b-9a3c-6f1d2e3b4c5d''
      ''../0b7e4c1a-5d2f-4e8b-9a3c-6f1d2e3b4c5d-old''
     = ''/ws/0b7e4c1a-5d2f-4e8b-9a3c-6f1d2e3b4c5d-old''"
  by (simp_all add: pathResolve_def normalizeString_def isAbsolute_def Let_def)

lemma sample_cwd: "processCwd sampleRuntime = ''/srv''" "fault sampleRuntime k operation = False"
  by (simp_all add: sampleRuntime_def)

lemma sibling_located:
  "locate ''/srv'' siblingDisk ''/ws/0b7e4c1a-5d2f-4e8b-9a3c-6f1d2e3b4c5d-old/secret.txt''
     = Inr [''ws'', ''0b7e4c1a-5d2f-4e8b-9a3c-6f1d2e3b4c5d-old'', ''secret.txt'']"
  "locate ''/srv'' siblingDisk ''/ws/0b7e4c1a-5d2f-4e8b-9a3c-6f1d2e3b4c5d-old''
     = Inr [''ws'', ''0b7e4c1a-5d2f-4e8b-9a3c-6f1d2e3b4c5d-old'']"
  by (simp_all add: locate_def components_def isAbsolute_def nodeAt_def siblingDisk_def)

text \<open>
  Claim C1 fails on the code. The three operations test \<open>fullPath.startsWith(workspacePath)\<close>,
  a test on the characters of the two paths, so a path that leaves the workspace for a
  directory beside it whose name begins with the workspace's name passes the test. Here
  the session's workspace is \<open>/ws/0b7e\<dots>4c5d\<close> and the relative path leads to
  \<open>/ws/0b7e\<dots>4c5d-old\<close>: the resolved path is not inside the workspace, and still
  \<open>readSessionFile\<close> returns the file's content, \<open>listSessionFiles\<close> lists the directory
  and \<open>getSessionFileInfo\<close> describes the file.
\<close>

theorem prefix_check_lets_sibling_through:
  "\<not> insideWorkspace ''/ws/0b7e4c1a-5d2f-4e8b-9a3c-6f1d2e3b4c5d''
        (pathResolve (processCwd sampleRuntime) ''/ws/0b7e4c1a-5d2f-4e8b-9a3c-6f1d2e3b4c5d''
           ''../0b7e4c1a-5d2f-4e8b-9a3c-6f1d2e3b4c5d-old/secret.txt'')
   \<and> readSessionFile sampleRuntime sampleConfig ownerId
        ''../0b7e4c1a-5d2f-4e8b-9a3c-6f1d2e3b4c5d-old/secret.txt'' siblingManager
      = Inr (Text ''token'')
   \<and> listSessionFiles sampleRuntime sampleConfig ownerId
        ''../0b7e4c1a-5d2f-4e8b-9a3c-6f1d2e3b4c5d-old'' siblingManager
      = Inr [''../0b7e4c1a-5d2f-4e8b-9a3c-6f1d2e3b4c5d-old/secret.txt'']
   \<and> getSessionFileInfo sampleRuntime sampleConfig ownerId
        ''../0b7e4c1a-5d2f-4e8b-9a3c-6f1d2e3b4c5d-old/secret.txt'' siblingManager
      = Inr (''../0b7e4c1a-5d2f-4e8b-9a3c-6f1d2e3b4c5d-old/secret.txt'', False)"
proof (intro conjI)
  have disk: "disk siblingManager = siblingDisk"
    by (simp add: siblingManager_def newManager_def)
  show "\<not> insideWorkspace ''/ws/0b7e4c1a-5d2f-4e8b-9a3c-6f1d2e3b4c5d''
        (pathResolve (processCwd sampleRuntime) ''/ws/0b7e4c1a-5d2f-4e8b-9a3c-6f1d2e3b4c5d''
           ''../0b7e4c1a-5d2f-4e8b-9a3c-6f1d2e3b4c5d-old/secret.txt'')"
    by (simp add: sample_cwd sibling_resolved insideWorkspace_def under_def)
  show "readSessionFile sampleRuntime sampleConfig ownerId
        ''../0b7e4c1a-5d2f-4e8b-9a3c-6f1d2e3b4c5d-old/secret.txt'' siblingManager
      = Inr (Text ''token'')"
    by (simp add: readSessionFile_def owner_workspace sample_cwd sibling_resolved disk
        awaitReadFile_def fsReadFile_def sibling_located)
      (simp add: nodeAt_def siblingDisk_def)
  show "listSessionFiles sampleRuntime sampleConfig ownerId
        ''../0b7e4c1a-5d2f-4e8b-9a3c-6f1d2e3b4c5d-old'' siblingManager
      = Inr [''../0b7e4c1a-5d2f-4e8b-9a3c-6f1d2e3b4c5d-old/secret.txt'']"
    by (simp add: listSessionFiles_def owner_workspace sample_cwd sibling_resolved disk
        awaitReaddir_def fsReaddir_def sibling_located)
      (simp add: disk nodeAt_def siblingDisk_def dirEntries_def isChild_def entryPath_def)
  show "getSessionFileInfo sampleRuntime sampleConfig ownerId
        ''../0b7e4c1a-5d2f-4e8b-9a3c-6f1d2e3b4c5d-old/secret.txt'' siblingManager
      = Inr (''../0b7e4c1a-5d2f-4e8b-9a3c-6f1d2e3b4c5d-old/secret.txt'', False)"
    by (simp add: getSessionFileInfo_def owner_workspace sample_cwd sibling_resolved disk
        awaitStat_def fsStat_def sibling_located)
      (simp add: nodeAt_def siblingDisk_def)
qed


end
